theory Spec2Isabelle
  imports Complex_Main "HOL-Library.Word"
begin

unbundle bit_operations_syntax

section \<open>Python values and library functions used by the engine\<close>

text \<open>
  The module \<^verbatim>\<open>image_hash_engine.py\<close> is embedded function by function. Python
  exceptions are values of \<open>py_exception\<close>; a call that may raise returns
  \<open>py_exception + 'a\<close> with \<open>Inl\<close> for the exception. Calls to \<^verbatim>\<open>print\<close> only log
  and are left out.
\<close>

datatype py_exception = Exception string | RuntimeError string

text \<open>The em dash of the classification labels, as its three UTF-8 bytes.\<close>

definition em_dash :: string where
  "em_dash = [CHR 0xE2, CHR 0x80, CHR 0x94]"

text \<open>\<^verbatim>\<open>str(n)\<close> of a non-negative integer, for the f-string of the size check.\<close>

fun str_nat :: "nat \<Rightarrow> string" where
  "str_nat n = (if n < 10 then [''0123456789'' ! n]
                else str_nat (n div 10) @ [''0123456789'' ! (n mod 10)])"

declare str_nat.simps [simp del]

definition str_int :: "int \<Rightarrow> string" where
  "str_int i = (if i < 0 then ''-'' @ str_nat (nat (- i)) else str_nat (nat i))"

subsection \<open>\<^verbatim>\<open>os.path\<close> (POSIX flavour) and \<^verbatim>\<open>str.lower\<close>\<close>

text \<open>\<^verbatim>\<open>p.rfind(c)\<close>: the last index of \<open>c\<close>, or \<open>-1\<close>.\<close>

definition rfind :: "string \<Rightarrow> char \<Rightarrow> int" where
  "rfind p c = (if c \<in> set p
                then int (length p) - 1 - int (length (takeWhile (\<lambda>x. x \<noteq> c) (rev p)))
                else - 1)"

text \<open>\<^verbatim>\<open>posixpath.basename\<close>: \<^verbatim>\<open>p[p.rfind('/') + 1:]\<close>.\<close>

definition os_path_basename :: "string \<Rightarrow> string" where
  "os_path_basename p = drop (nat (rfind p CHR ''/'' + 1)) p"

text \<open>
  \<^verbatim>\<open>posixpath.splitext\<close>: the extension starts at the last dot after the last slash,
  unless only dots precede it in the file name.
\<close>

definition os_path_splitext :: "string \<Rightarrow> string \<times> string" where
  "os_path_splitext p =
     (let sepIndex = rfind p CHR ''/'';
          dotIndex = rfind p CHR ''.''
      in if dotIndex > sepIndex \<and>
            list_ex (\<lambda>c. c \<noteq> CHR ''.'')
              (take (nat (dotIndex - (sepIndex + 1))) (drop (nat (sepIndex + 1)) p))
         then (take (nat dotIndex) p, drop (nat dotIndex) p)
         else (p, []))"

text \<open>
  \<^verbatim>\<open>str.lower\<close> on the ASCII letters. The result is only compared with the ASCII
  extensions below, none of which holds a letter that a non-ASCII character lowers to.
\<close>

definition lower_char :: "char \<Rightarrow> char" where
  "lower_char c =
     (case map_of (zip ''ABCDEFGHIJKLMNOPQRSTUVWXYZ'' ''abcdefghijklmnopqrstuvwxyz'') c of
        Some l \<Rightarrow> l
      | None \<Rightarrow> c)"

definition str_lower :: "string \<Rightarrow> string" where
  "str_lower s = map lower_char s"

definition SUPPORTED_IMAGE_EXTS :: "string set" where
  "SUPPORTED_IMAGE_EXTS =
     {''.png'', ''.jpg'', ''.jpeg'', ''.bmp'', ''.tiff'', ''.tif'', ''.webp'', ''.gif''}"

subsection \<open>\<^verbatim>\<open>round\<close>\<close>

text \<open>
  \<^verbatim>\<open>round(x, ndigits)\<close> rounds the exact value of the float \<open>x\<close> to \<open>ndigits\<close> decimals,
  ties to even, and returns the float nearest to that decimal. The engine calls it on
  \<^verbatim>\<open>((64 - d) / 64) * 100\<close>, a multiple of \<open>1/16\<close> that binary floating point holds
  exactly for every distance \<open>d\<close> from 0 to 64, so the quotient and the product are exact.
  The model computes on \<open>rat\<close> and keeps the decimal.
\<close>

definition round_half_even :: "rat \<Rightarrow> int" where
  "round_half_even x =
     (let f = \<lfloor>x\<rfloor>; r = x - of_int f
      in if r < 1 / 2 then f
         else if r > 1 / 2 then f + 1
         else if even f then f else f + 1)"

definition py_round :: "rat \<Rightarrow> nat \<Rightarrow> rat" where
  "py_round x ndigits = of_int (round_half_even (x * 10 ^ ndigits)) / 10 ^ ndigits"

subsection \<open>\<^verbatim>\<open>imagehash.ImageHash\<close>\<close>

text \<open>
  \<^verbatim>\<open>imagehash.phash\<close> returns an 8 by 8 array of bits: a 64-bit word. The difference
  \<^verbatim>\<open>h1 - h2\<close> of two hashes counts the positions where the flattened arrays differ.
\<close>

type_synonym ImageHash = "64 word"

definition ImageHash_sub :: "ImageHash \<Rightarrow> ImageHash \<Rightarrow> int" where
  "ImageHash_sub h1 h2 = int (length (filter (\<lambda>i. bit h1 i \<noteq> bit h2 i) [0..<64]))"

text \<open>The spec's words for the same distance: the population count of the bitwise XOR.\<close>

definition popcount :: "64 word \<Rightarrow> nat" where
  "popcount x = length (filter (bit x) [0..<64])"

definition spec_hamming_distance :: "64 word \<Rightarrow> 64 word \<Rightarrow> int" where
  "spec_hamming_distance a b = int (popcount (a XOR b))"

subsection \<open>Dictionaries that keep insertion order\<close>

text \<open>
  \<^verbatim>\<open>d[k] = v\<close> on a Python dict: the value of an existing key is replaced in place, a new
  key is added at the end. Iteration follows insertion order.
\<close>

fun dict_setitem :: "('k \<times> 'v) list \<Rightarrow> 'k \<Rightarrow> 'v \<Rightarrow> ('k \<times> 'v) list" where
  "dict_setitem [] k v = [(k, v)]"
| "dict_setitem ((k', v') # d) k v =
     (if k' = k then (k, v) # d else (k', v') # dict_setitem d k v)"

section \<open>The world outside the engine\<close>

text \<open>
  What one call observes of the file system, of the optional libraries and of the random
  source. \<open>FITZ_SUPPORT\<close> and \<open>PDF2IMAGE_SUPPORT\<close> are the module's import flags.
  \<open>'img\<close> is the type of PIL images.
\<close>

record 'img fitz_page =
  rotation :: int
  get_pixmap_gray :: "py_exception + 'img"

record 'img world =
  FITZ_SUPPORT :: bool
  PDF2IMAGE_SUPPORT :: bool
  platform_system :: string
  os_path_exists :: "string \<Rightarrow> bool"
  os_path_getsize :: "string \<Rightarrow> int"
  os_path_abspath :: "string \<Rightarrow> string"
  file_bytes :: "string \<Rightarrow> 8 word list"
  sha256_hexdigest :: "8 word list \<Rightarrow> string"
  fitz_open :: "string \<Rightarrow> py_exception + 'img fitz_page list"
  Image_rotate :: "'img \<Rightarrow> int \<Rightarrow> 'img"
  convert_from_path :: "string \<Rightarrow> string option \<Rightarrow> py_exception + 'img list"
  Image_open :: "string \<Rightarrow> py_exception + 'img"
  Image_convert_L :: "'img \<Rightarrow> py_exception + 'img"
  Image_resize :: "'img \<Rightarrow> nat \<times> nat \<Rightarrow> 'img"
  imagehash_phash :: "'img \<Rightarrow> ImageHash"
  uuid4 :: string

section \<open>The engine\<close>

record engine =
  threshold :: int
  poppler_path :: "string option"
  phash_archive :: "(string \<times> string \<times> ImageHash) list"
  sha256_archive :: "string \<rightharpoonup> string"

definition backslash :: char where
  "backslash = CHR 0x5C"

definition get_poppler_path :: "'img world \<Rightarrow> string option" where
  "get_poppler_path w =
     (if platform_system w = ''Windows''
      then find (os_path_exists w)
             [''C:'' @ [backslash] @ ''poppler-25.12.0'' @ [backslash] @ ''Library''
                @ [backslash] @ ''bin'',
              ''C:'' @ [backslash] @ ''poppler'' @ [backslash] @ ''bin'']
      else None)"

text \<open>A string option is truthy when it is a non-empty string.\<close>

definition truthy :: "string option \<Rightarrow> bool" where
  "truthy s = (case s of None \<Rightarrow> False | Some x \<Rightarrow> x \<noteq> [])"

text \<open>
  The constructor. An argument that the caller leaves out is \<open>None\<close>; the threshold then
  takes its default of 10.
\<close>

definition ImageForensicsEngine :: "'img world \<Rightarrow> int option \<Rightarrow> string option \<Rightarrow> engine" where
  "ImageForensicsEngine w threshold_arg poppler_path_arg =
     \<lparr>threshold = (case threshold_arg of None \<Rightarrow> 10 | Some t \<Rightarrow> t),
      poppler_path = (if truthy poppler_path_arg then poppler_path_arg else get_poppler_path w),
      phash_archive = [],
      sha256_archive = Map.empty\<rparr>"

subsection \<open>Private helpers\<close>

definition validate_file :: "'img world \<Rightarrow> string \<Rightarrow> bool \<times> string" where
  "validate_file w file_path =
     (if \<not> os_path_exists w file_path then (False, ''File not found on disk'')
      else let size = os_path_getsize w file_path
           in if size = 0 then (False, ''Empty file (0 bytes) '' @ em_dash @ '' rejected'')
              else if size > 50 * 1024 * 1024
              then (False, ''File too large ('' @ str_int (size div 1024 div 1024)
                             @ '' MB > 50 MB limit)'')
              else (True, ''''))"

text \<open>
  \<^verbatim>\<open>iter(lambda: f.read(65536), b"")\<close>: the chunks of the file, up to the first empty
  read. The hash object is the bytes it has been fed.
\<close>

function read_chunks :: "8 word list \<Rightarrow> 8 word list list" where
  "read_chunks bs = (if bs = [] then [] else take 65536 bs # read_chunks (drop 65536 bs))"
  by pat_completeness auto
termination
  by (relation "measure length") auto

declare read_chunks.simps [simp del]

definition file_sha256 :: "'img world \<Rightarrow> string \<Rightarrow> string" where
  "file_sha256 w file_path =
     sha256_hexdigest w (foldl (\<lambda>h chunk. h @ chunk) [] (read_chunks (file_bytes w file_path)))"

text \<open>
  The body of the first \<^verbatim>\<open>try\<close> of \<^verbatim>\<open>_pdf_to_pil\<close>: \<open>Inr\<close> is what it returns, \<open>Inl\<close> the
  exception that the \<^verbatim>\<open>except\<close> clause catches.
\<close>

definition fitz_try :: "'img world \<Rightarrow> string \<Rightarrow> py_exception + 'img option" where
  "fitz_try w file_path =
     (case fitz_open w file_path of
        Inl ex \<Rightarrow> Inl ex
      | Inr doc \<Rightarrow>
          (case doc of
             [] \<Rightarrow> Inr None
           | page # _ \<Rightarrow>
               (case get_pixmap_gray page of
                  Inl ex \<Rightarrow> Inl ex
                | Inr img \<Rightarrow>
                    Inr (Some (if rotation page \<in> {90, 180, 270}
                               then Image_rotate w img (- rotation page)
                               else img)))))"

text \<open>
  The body of the second \<^verbatim>\<open>try\<close>: \<open>Inr None\<close> when \<^verbatim>\<open>pages\<close> is empty and control
  falls through.
\<close>

definition pdf2image_try :: "'img world \<Rightarrow> engine \<Rightarrow> string \<Rightarrow> py_exception + 'img option" where
  "pdf2image_try w e file_path =
     (case convert_from_path w (os_path_abspath w file_path)
             (if truthy (poppler_path e) then poppler_path e else None) of
        Inl ex \<Rightarrow> Inl ex
      | Inr pages \<Rightarrow>
          (case pages of
             [] \<Rightarrow> Inr None
           | p # _ \<Rightarrow>
               (case Image_convert_L w p of
                  Inl ex \<Rightarrow> Inl ex
                | Inr img \<Rightarrow> Inr (Some img))))"

definition pdf_to_pil :: "'img world \<Rightarrow> engine \<Rightarrow> string \<Rightarrow> 'img option" where
  "pdf_to_pil w e file_path =
     (let fallback =
            (if PDF2IMAGE_SUPPORT w
             then (case pdf2image_try w e file_path of
                     Inr (Some img) \<Rightarrow> Some img
                   | _ \<Rightarrow> None)
             else None)
      in if FITZ_SUPPORT w
         then (case fitz_try w file_path of
                 Inr result \<Rightarrow> result
               | Inl ex \<Rightarrow> fallback)
         else fallback)"

text \<open>\<^verbatim>\<open>Image.open(file_path).convert("L")\<close> inside a \<^verbatim>\<open>try\<close>.\<close>

definition open_convert_L :: "'img world \<Rightarrow> string \<Rightarrow> 'img option" where
  "open_convert_L w file_path =
     (case Image_open w file_path of
        Inl ex \<Rightarrow> None
      | Inr im \<Rightarrow> (case Image_convert_L w im of Inl ex \<Rightarrow> None | Inr img \<Rightarrow> Some img))"

definition load_as_pil :: "'img world \<Rightarrow> engine \<Rightarrow> string \<Rightarrow> 'img option" where
  "load_as_pil w e file_path =
     (let ext = str_lower (snd (os_path_splitext file_path))
      in if ext = ''.pdf'' then pdf_to_pil w e file_path
         else if ext \<in> SUPPORTED_IMAGE_EXTS then open_convert_L w file_path
         else open_convert_L w file_path)"

definition generate_phash :: "'img world \<Rightarrow> 'img \<Rightarrow> ImageHash" where
  "generate_phash w img = imagehash_phash w (Image_resize w img (256, 256))"

definition hamming :: "ImageHash \<Rightarrow> ImageHash \<Rightarrow> int" where
  "hamming h1 h2 = \<bar>ImageHash_sub h1 h2\<bar>"

definition risk_from_hamming :: "int \<Rightarrow> int \<times> string" where
  "risk_from_hamming distance =
     (if distance \<le> 3
      then (95, ''Critical Similarity '' @ em_dash @ '' Likely Duplicate (pHash)'')
      else if distance \<le> 8
      then (75, ''High Similarity '' @ em_dash @ '' Possible Edited Reuse (pHash)'')
      else if distance \<le> 15
      then (40, ''Moderate Similarity '' @ em_dash @ '' Inconclusive (pHash)'')
      else (5, ''Unique Document (pHash)''))"

subsection \<open>The dictionaries the public operations return\<close>

record comparison =
  hash_1 :: string
  hash_2 :: string
  hamming_distance :: int
  similarity_percent :: rat
  fraud_risk_score :: int
  classification :: string
  fraud_detected :: bool

text \<open>The result of one layer, and the report, which repeats the layer's keys.\<close>

record finding =
  matched_file :: "string option"
  similarity_percent :: rat
  fraud_risk_score :: int
  classification :: string
  fraud_detected :: bool
  hamming_distance :: "int option"

record layers_dict =
  sha256 :: "finding option"
  phash :: "finding option"

record report = finding +
  uploaded_file :: string
  archive_size :: nat
  "method" :: string
  layers :: layers_dict

text \<open>
  \<^verbatim>\<open>str(h)\<close> of an \<^verbatim>\<open>ImageHash\<close>: the bits as a hexadecimal number, 16 digits for 64 bits.
\<close>

definition ImageHash_str :: "ImageHash \<Rightarrow> string" where
  "ImageHash_str h =
     map (\<lambda>i. ''0123456789abcdef'' ! (unat (drop_bit (4 * i) h) mod 16)) (rev [0..<16])"

subsection \<open>Public: direct comparison of two files\<close>

definition analyze_files ::
  "'img world \<Rightarrow> engine \<Rightarrow> string \<Rightarrow> string \<Rightarrow> (py_exception + comparison) \<times> engine" where
  "analyze_files w e file1_path file2_path =
     (let img1 = load_as_pil w e file1_path;
          img2 = load_as_pil w e file2_path
      in case (img1, img2) of
           (Some i1, Some i2) \<Rightarrow>
             (let h1 = generate_phash w i1;
                  h2 = generate_phash w i2;
                  distance = hamming h1 h2;
                  similarity = py_round (((64 - of_int distance) / 64) * 100) 2;
                  (risk_score, classification) = risk_from_hamming distance
              in (Inr \<lparr>hash_1 = ImageHash_str h1, hash_2 = ImageHash_str h2,
                       comparison.hamming_distance = distance,
                       comparison.similarity_percent = similarity,
                       comparison.fraud_risk_score = risk_score,
                       comparison.classification = classification,
                       comparison.fraud_detected = (distance \<le> threshold e)\<rparr>, e))
         | _ \<Rightarrow>
             (Inl (RuntimeError ''Could not render one or both files for comparison.''), e))"

subsection \<open>Public: archive-based analysis\<close>

text \<open>
  One iteration of the scan for the closest fingerprint. The loop state is
  \<open>(best_id, best_distance, best_name)\<close>; \<open>best_name\<close> is unbound (\<open>None\<close>) until the
  first assignment.
\<close>

definition scan_step ::
  "ImageHash \<Rightarrow> string option \<times> int \<times> string option \<Rightarrow> string \<times> string \<times> ImageHash
     \<Rightarrow> string option \<times> int \<times> string option" where
  "scan_step new_hash best item =
     (case (best, item) of
        ((best_id, best_distance, best_name), (aid, aname, ahash)) \<Rightarrow>
          (let d = hamming new_hash ahash
           in if d < best_distance then (Some aid, d, Some aname)
              else (best_id, best_distance, best_name)))"

definition closest_phash ::
  "ImageHash \<Rightarrow> (string \<times> string \<times> ImageHash) list \<Rightarrow> string option \<times> int \<times> string option" where
  "closest_phash new_hash archive = foldl (scan_step new_hash) (None, 64, None) archive"

text \<open>
  \<^verbatim>\<open>max(candidates, key=...)\<close> on a non-empty list: the first element with the largest key.
\<close>

definition max_by_key :: "('a \<Rightarrow> int) \<Rightarrow> 'a \<Rightarrow> 'a list \<Rightarrow> 'a" where
  "max_by_key key c cs = foldl (\<lambda>best r. if key r > key best then r else best) c cs"

definition sha256_layer :: "engine \<Rightarrow> string \<Rightarrow> finding option" where
  "sha256_layer e sha =
     (case sha256_archive e sha of
        Some matched_name \<Rightarrow>
          Some \<lparr>matched_file = Some matched_name,
                similarity_percent = 100,
                fraud_risk_score = 95,
                classification = ''Critical '' @ em_dash @ '' Exact Byte Duplicate (SHA-256)'',
                fraud_detected = True,
                hamming_distance = Some 0\<rparr>
      | None \<Rightarrow> None)"

text \<open>
  The fingerprint layer for a rendered image: the finding, the render method and the
  engine with the new fingerprint stored.
\<close>

definition phash_layer ::
  "'img world \<Rightarrow> engine \<Rightarrow> string \<Rightarrow> 'img \<Rightarrow> finding \<times> string \<times> engine" where
  "phash_layer w e basename img =
     (let render_method = (if FITZ_SUPPORT w then ''fitz''
                           else if PDF2IMAGE_SUPPORT w then ''pdf2image'' else ''pil'');
          new_hash = generate_phash w img;
          archive_id = uuid4 w;
          (best_id, best_distance, best_name) = closest_phash new_hash (phash_archive e);
          e' = e\<lparr>phash_archive := dict_setitem (phash_archive e) archive_id (basename, new_hash)\<rparr>
      in if best_id \<noteq> None
         then (let similarity = py_round (((64 - of_int best_distance) / 64) * 100) 2;
                   (risk_score, classification) = risk_from_hamming best_distance
               in (\<lparr>matched_file = best_name,
                    similarity_percent = similarity,
                    fraud_risk_score = risk_score,
                    classification = classification,
                    fraud_detected = (best_distance \<le> threshold e),
                    hamming_distance = Some best_distance\<rparr>, render_method, e'))
         else (\<lparr>matched_file = None,
                similarity_percent = 0,
                fraud_risk_score = 5,
                classification = ''First Upload '' @ em_dash @ '' No Reference'',
                fraud_detected = False,
                hamming_distance = None\<rparr>, render_method, e'))"

definition analyze_against_archive :: "'img world \<Rightarrow> engine \<Rightarrow> string \<Rightarrow> report \<times> engine" where
  "analyze_against_archive w e file_path =
     (let basename = os_path_basename file_path;
          (ok, err) = validate_file w file_path
      in if \<not> ok
         then (\<lparr>matched_file = None, similarity_percent = 0, fraud_risk_score = 0,
                classification = ''Validation Failed '' @ em_dash @ '' '' @ err,
                fraud_detected = False, hamming_distance = None,
                uploaded_file = basename, archive_size = length (phash_archive e),
                method = ''validation_error'',
                layers = \<lparr>sha256 = None, phash = None\<rparr>\<rparr>, e)
         else
           (let sha = file_sha256 w file_path;
                sha_result = sha256_layer e sha;
                e1 = e\<lparr>sha256_archive := (sha256_archive e)(sha \<mapsto> basename)\<rparr>;
                img = load_as_pil w e1 file_path;
                (phash_result, render_method, e2) =
                  (case img of
                     Some im \<Rightarrow>
                       (case phash_layer w e1 basename im of
                          (r, m, e') \<Rightarrow> (Some r, m, e'))
                   | None \<Rightarrow> (None, ''sha256_only'', e1));
                candidates = List.map_filter (\<lambda>r. r) [sha_result, phash_result]
            in case candidates of
                 [] \<Rightarrow>
                   (\<lparr>matched_file = None, similarity_percent = 0, fraud_risk_score = 10,
                     classification =
                       ''Analysis Incomplete '' @ em_dash @ '' Could Not Render Document'',
                     fraud_detected = False, hamming_distance = None,
                     uploaded_file = basename, archive_size = length (phash_archive e2),
                     method = ''failed'',
                     layers = \<lparr>sha256 = None, phash = None\<rparr>\<rparr>, e2)
               | c # cs \<Rightarrow>
                   (let best = max_by_key fraud_risk_score c cs
                    in (\<lparr>matched_file = matched_file best,
                         similarity_percent = similarity_percent best,
                         fraud_risk_score = fraud_risk_score best,
                         classification = classification best,
                         fraud_detected = fraud_detected best,
                         hamming_distance = hamming_distance best,
                         uploaded_file = basename, archive_size = length (phash_archive e2),
                         method = render_method,
                         layers = \<lparr>sha256 = sha_result, phash = phash_result\<rparr>\<rparr>, e2))))"

text \<open>A sequence of calls, each with the world it runs in, threading the engine.\<close>

fun analyze_all :: "engine \<Rightarrow> ('img world \<times> string) list \<Rightarrow> report list \<times> engine" where
  "analyze_all e [] = ([], e)"
| "analyze_all e ((w, file_path) # calls) =
     (case analyze_against_archive w e file_path of
        (r, e') \<Rightarrow> (case analyze_all e' calls of (rs, e'') \<Rightarrow> (r # rs, e'')))"

section \<open>Notions used in the statements\<close>

text \<open>
  An example world for the concrete runs. Its digest function is a stand-in that spells the
  low hexadecimal digit of each byte. \<^verbatim>\<open>a.png\<close> and \<^verbatim>\<open>b.png\<close> hold the same bytes and decode
  to the same image, with fingerprint 0; \<^verbatim>\<open>c.png\<close> has the fingerprint with all 64 bits set;
  the primary renderer raises on every document, the fallback rasterizer renders
  \<^verbatim>\<open>scan.pdf\<close> (fingerprint 7) and nothing else; \<^verbatim>\<open>empty.png\<close> has no bytes. The argument is
  the id that \<^verbatim>\<open>uuid4\<close> returns.
\<close>

definition toy_digest :: "8 word list \<Rightarrow> string" where
  "toy_digest bs = map (\<lambda>b. ''0123456789abcdef'' ! (unat b mod 16)) bs"

definition example_world :: "string \<Rightarrow> nat world" where
  "example_world fresh_id =
     \<lparr>FITZ_SUPPORT = True,
      PDF2IMAGE_SUPPORT = True,
      platform_system = ''Linux'',
      os_path_exists = (\<lambda>p. p \<noteq> ''uploads/missing.png''),
      os_path_getsize = (\<lambda>p. if p = ''uploads/empty.png'' then 0 else 2048),
      os_path_abspath = (\<lambda>p. ''/srv/'' @ p),
      file_bytes = (\<lambda>p. if p = ''uploads/a.png'' \<or> p = ''uploads/b.png'' then [1, 2, 3]
                         else if p = ''uploads/c.png'' then [4]
                         else if p = ''uploads/scan.pdf'' then [5, 6]
                         else [7, 7, 7]),
      sha256_hexdigest = toy_digest,
      fitz_open = (\<lambda>p. Inl (Exception ''cannot open document'')),
      Image_rotate = (\<lambda>img angle. img),
      convert_from_path = (\<lambda>p poppler. if p = ''/srv/uploads/scan.pdf'' then Inr [13]
                                          else Inl (Exception ''Unable to get page count'')),
      Image_open = (\<lambda>p. if p = ''uploads/a.png'' \<or> p = ''uploads/b.png'' then Inr 11
                         else if p = ''uploads/c.png'' then Inr 12
                         else Inl (Exception ''cannot identify image file'')),
      Image_convert_L = (\<lambda>img. Inr img),
      Image_resize = (\<lambda>img size. img),
      imagehash_phash = (\<lambda>img. if img = 11 then 0 else if img = 12 then - 1 else 7),
      uuid4 = fresh_id\<rparr>"

definition example_engine :: engine where
  "example_engine = ImageForensicsEngine (example_world ''id-0'') None None"


definition report_of :: "finding \<Rightarrow> string \<Rightarrow> nat \<Rightarrow> string \<Rightarrow> layers_dict \<Rightarrow> report" where
  "report_of best basename n m ls =
     \<lparr>matched_file = matched_file best,
      similarity_percent = similarity_percent best,
      fraud_risk_score = fraud_risk_score best,
      classification = classification best,
      fraud_detected = fraud_detected best,
      hamming_distance = hamming_distance best,
      uploaded_file = basename, archive_size = n, method = m, layers = ls\<rparr>"

text \<open>The example engine after \<^verbatim>\<open>a.png\<close> has been submitted.\<close>

definition engine_after_a :: engine where
  "engine_after_a =
     snd (analyze_against_archive (example_world ''id-1'') example_engine ''uploads/a.png'')"

text \<open>
  The three values the fingerprint layer can return: the method it names, the finding on an
  archive without a closer entry, and the finding for a closest entry at distance \<open>d\<close> with
  display name \<open>n\<close>.
\<close>

definition render_method_of :: "'img world \<Rightarrow> string" where
  "render_method_of w =
     (if FITZ_SUPPORT w then ''fitz'' else if PDF2IMAGE_SUPPORT w then ''pdf2image'' else ''pil'')"

definition first_upload :: finding where
  "first_upload =
     \<lparr>matched_file = None, similarity_percent = 0, fraud_risk_score = 5,
      classification = ''First Upload '' @ em_dash @ '' No Reference'',
      fraud_detected = False, hamming_distance = None\<rparr>"

definition match_finding :: "engine \<Rightarrow> int \<Rightarrow> string option \<Rightarrow> finding" where
  "match_finding e d n =
     \<lparr>matched_file = n,
      similarity_percent = py_round (((64 - of_int d) / 64) * 100) 2,
      fraud_risk_score = fst (risk_from_hamming d),
      classification = snd (risk_from_hamming d),
      fraud_detected = (d \<le> threshold e),
      hamming_distance = Some d\<rparr>"

text \<open>
  A call renders when the file passes validation and a raster is produced. The ids drawn by
  a sequence of calls are fresh when each is absent from the fingerprint archive at the time
  of its call, as random UUIDs are.
\<close>

definition renders :: "'img world \<Rightarrow> engine \<Rightarrow> string \<Rightarrow> bool" where
  "renders w e fp = (fst (validate_file w fp) \<and> load_as_pil w e fp \<noteq> None)"




text \<open>
  The values that \<^verbatim>\<open>imagehash.phash\<close> can return. The library is outside the repository; it
  sets the bit of each of the 64 low-frequency DCT coefficients that lies strictly above
  their median. At most 32 of 64 values lie strictly above their median. The first
  coefficient is the scaled sum of the pixels and lies strictly above every other one unless
  the raster is black, and a black raster has no bit set. The first bit of the flattened
  array is bit 63 of the word.
\<close>

definition phash_output :: "ImageHash \<Rightarrow> bool" where
  "phash_output h = ((h = 0 \<or> bit h 63) \<and> popcount h \<le> 32)"

text \<open>
  The example world with fingerprints of that form: 0 for \<^verbatim>\<open>a.png\<close>, and the first bit with
  three and with two low bits for \<^verbatim>\<open>c.png\<close> and \<^verbatim>\<open>scan.pdf\<close>.
\<close>

definition library_world :: "string \<Rightarrow> nat world" where
  "library_world fresh_id =
     (example_world fresh_id)
       \<lparr>imagehash_phash :=
          (\<lambda>img. if img = 11 then 0
                 else if img = 12 then 0x8000000000000007 else 0x8000000000000003)\<rparr>"

definition library_calls :: "(nat world \<times> string) list" where
  "library_calls =
     [(library_world ''id-1'', ''uploads/a.png''),
      (library_world ''id-2'', ''uploads/c.png'')]"

section \<open>Properties\<close>

subsection \<open>Library facts\<close>

lemma hamming_eq_spec: "hamming h1 h2 = spec_hamming_distance h1 h2"
proof -
  have "(\<lambda>i. bit h1 i \<noteq> bit h2 i) = bit (h1 XOR h2)"
    by (auto simp: bit_xor_iff fun_eq_iff)
  then show ?thesis
    by (simp add: hamming_def ImageHash_sub_def spec_hamming_distance_def popcount_def)
qed

lemma hamming_bounds: "0 \<le> hamming h1 h2 \<and> hamming h1 h2 \<le> 64"
proof -
  have "length (filter (\<lambda>i. bit h1 i \<noteq> bit h2 i) [0..<64]) \<le> length [0..<64::nat]"
    by (rule length_filter_le)
  then show ?thesis by (simp add: hamming_def ImageHash_sub_def)
qed

lemma foldl_read_chunks: "foldl (\<lambda>h chunk. h @ chunk) acc (read_chunks bs) = acc @ bs"
proof (induction bs arbitrary: acc rule: read_chunks.induct)
  case (1 bs)
  show ?case
  proof (cases "bs = []")
    case True
    then show ?thesis by (simp add: read_chunks.simps)
  next
    case False
    then have "foldl (\<lambda>h chunk. h @ chunk) acc (read_chunks bs)
             = foldl (\<lambda>h chunk. h @ chunk) (acc @ take 65536 bs) (read_chunks (drop 65536 bs))"
      by (subst read_chunks.simps) simp
    also have "\<dots> = (acc @ take 65536 bs) @ drop 65536 bs"
      using False by (rule "1.IH")
    finally show ?thesis by simp
  qed
qed

lemma file_sha256_whole: "file_sha256 w file_path = sha256_hexdigest w (file_bytes w file_path)"
  by (simp add: file_sha256_def foldl_read_chunks)



subsection \<open>The scan for the closest fingerprint\<close>

lemma scan_step_eq:
  "scan_step h (bid, bd, bn) (aid, an, ah) =
     (if hamming h ah < bd then (Some aid, hamming h ah, Some an) else (bid, bd, bn))"
  by (simp add: scan_step_def)

lemma scan_fold_invariant:
  "foldl (scan_step h) (bid, bd, bn) xs = (rid, rd, rn) \<Longrightarrow>
     rd \<le> bd \<and> (\<forall>(aid, an, ah) \<in> set xs. rd \<le> hamming h ah) \<and>
     (((rid, rd, rn) = (bid, bd, bn) \<and> (\<forall>(aid, an, ah) \<in> set xs. \<not> hamming h ah < bd)) \<or>
      (\<exists>(aid, an, ah) \<in> set xs. rid = Some aid \<and> rn = Some an \<and> rd = hamming h ah \<and> rd < bd))"
proof (induction xs arbitrary: bid bd bn)
  case Nil
  then show ?case by simp
next
  case (Cons x xs)
  obtain aid an ah where x: "x = (aid, an, ah)" by (cases x) auto
  show ?case
  proof (cases "hamming h ah < bd")
    case True
    then have "foldl (scan_step h) (Some aid, hamming h ah, Some an) xs = (rid, rd, rn)"
      using Cons.prems by (simp add: x scan_step_eq)
    from Cons.IH [OF this] True show ?thesis
      by (auto simp: x)
  next
    case False
    then have "foldl (scan_step h) (bid, bd, bn) xs = (rid, rd, rn)"
      using Cons.prems by (simp add: x scan_step_eq)
    from Cons.IH [OF this] False show ?thesis
      by (auto simp: x)
  qed
qed

text \<open>
  The scan either leaves its initial state, when no entry is closer than 64 bits, or returns
  an entry of the archive at the least distance.
\<close>

lemma closest_phash_cases:
  "closest_phash h archive = (None, 64, None) \<or>
   (\<exists>aid an ah. (aid, an, ah) \<in> set archive \<and> hamming h ah < 64 \<and>
       closest_phash h archive = (Some aid, hamming h ah, Some an) \<and>
       (\<forall>(a, n, x) \<in> set archive. hamming h ah \<le> hamming h x))"
proof -
  obtain rid rd rn where r: "foldl (scan_step h) (None, 64, None) archive = (rid, rd, rn)"
    by (metis prod_cases3)
  note inv = scan_fold_invariant [OF r]
  then show ?thesis
    by (auto simp: closest_phash_def r)
qed

lemma closest_phash_min:
  assumes "(aid0, an0, ah0) \<in> set archive" and "hamming h ah0 < 64"
  shows "\<exists>aid an ah. (aid, an, ah) \<in> set archive \<and>
           closest_phash h archive = (Some aid, hamming h ah, Some an) \<and>
           (\<forall>(a, n, x) \<in> set archive. hamming h ah \<le> hamming h x)"
proof -
  obtain rid rd rn where r: "foldl (scan_step h) (None, 64, None) archive = (rid, rd, rn)"
    by (metis prod_cases3)
  note inv = scan_fold_invariant [OF r]
  from inv assms have "\<not> ((rid, rd, rn) = (None, 64, None) \<and>
      (\<forall>(aid, an, ah) \<in> set archive. \<not> hamming h ah < 64))"
    by blast
  with inv obtain aid an ah where
    "(aid, an, ah) \<in> set archive" "rid = Some aid" "rn = Some an" "rd = hamming h ah"
    by blast
  with inv show ?thesis
    by (auto simp: closest_phash_def r)
qed

subsection \<open>The risk classifier\<close>

text \<open>
  C4. The risk classifier takes the Hamming distance alone and maps the closed ranges
  0 to 3, 4 to 8, 9 to 15 and 16 to 64 to the risks 95, 75, 40 and 5; the ranges do not
  overlap, and the boundary distances 3, 4, 8, 9, 15 and 16 fall on the sides the ranges say.
\<close>

theorem C4_risk_classifier_ranges:
  "(0 \<le> d \<and> d \<le> 3 \<longrightarrow> fst (risk_from_hamming d) = 95) \<and>
   (4 \<le> d \<and> d \<le> 8 \<longrightarrow> fst (risk_from_hamming d) = 75) \<and>
   (9 \<le> d \<and> d \<le> 15 \<longrightarrow> fst (risk_from_hamming d) = 40) \<and>
   (16 \<le> d \<and> d \<le> 64 \<longrightarrow> fst (risk_from_hamming d) = 5)"
  by (simp add: risk_from_hamming_def)

theorem C4_risk_classifier_boundaries:
  "fst (risk_from_hamming 3) = 95 \<and> fst (risk_from_hamming 4) = 75 \<and>
   fst (risk_from_hamming 8) = 75 \<and> fst (risk_from_hamming 9) = 40 \<and>
   fst (risk_from_hamming 15) = 40 \<and> fst (risk_from_hamming 16) = 5"
  using C4_risk_classifier_ranges [of 3] C4_risk_classifier_ranges [of 4]
    C4_risk_classifier_ranges [of 8] C4_risk_classifier_ranges [of 9]
    C4_risk_classifier_ranges [of 15] C4_risk_classifier_ranges [of 16]
  by simp

subsection \<open>Unfolding the archive analysis\<close>


lemma report_of_sel:
  "layers (report_of best b n m ls) = ls"
  "method (report_of best b n m ls) = m"
  "archive_size (report_of best b n m ls) = n"
  "uploaded_file (report_of best b n m ls) = b"
  by (simp_all add: report_of_def)

lemma pdf_to_pil_poppler:
  "poppler_path e' = poppler_path e \<Longrightarrow> pdf_to_pil w e' fp = pdf_to_pil w e fp"
  by (simp add: pdf_to_pil_def pdf2image_try_def)

lemma load_as_pil_poppler:
  assumes "poppler_path e' = poppler_path e"
  shows "load_as_pil w e' fp = load_as_pil w e fp"
  unfolding load_as_pil_def pdf_to_pil_poppler [OF assms] by (rule refl)

lemma load_as_pil_sha256_archive:
  "load_as_pil w (e\<lparr>sha256_archive := a\<rparr>) fp = load_as_pil w e fp"
  by (rule load_as_pil_poppler) simp

lemma phash_layer_method:
  "fst (snd (phash_layer w e b im)) =
     (if FITZ_SUPPORT w then ''fitz'' else if PDF2IMAGE_SUPPORT w then ''pdf2image'' else ''pil'')"
  by (simp add: phash_layer_def Let_def split: prod.splits)

lemma phash_layer_engine:
  "snd (snd (phash_layer w e b im)) =
     e\<lparr>phash_archive := dict_setitem (phash_archive e) (uuid4 w) (b, generate_phash w im)\<rparr>"
  by (simp add: phash_layer_def Let_def split: prod.splits)

lemma analyze_invalid:
  assumes "\<not> fst (validate_file w fp)"
  shows "analyze_against_archive w e fp =
     (\<lparr>matched_file = None, similarity_percent = 0, fraud_risk_score = 0,
       classification = ''Validation Failed '' @ em_dash @ '' '' @ snd (validate_file w fp),
       fraud_detected = False, hamming_distance = None,
       uploaded_file = os_path_basename fp, archive_size = length (phash_archive e),
       method = ''validation_error'',
       layers = \<lparr>sha256 = None, phash = None\<rparr>\<rparr>, e)"
proof -
  obtain err where v: "validate_file w fp = (False, err)"
    using assms by (cases "validate_file w fp") auto
  show ?thesis
    unfolding analyze_against_archive_def v Let_def split_conv by simp
qed

lemma analyze_not_rendered_miss:
  assumes "fst (validate_file w fp)" and "load_as_pil w e fp = None"
    and "sha256_archive e (sha256_hexdigest w (file_bytes w fp)) = None"
  shows "analyze_against_archive w e fp =
     (\<lparr>matched_file = None, similarity_percent = 0, fraud_risk_score = 10,
       classification = ''Analysis Incomplete '' @ em_dash @ '' Could Not Render Document'',
       fraud_detected = False, hamming_distance = None,
       uploaded_file = os_path_basename fp, archive_size = length (phash_archive e),
       method = ''failed'',
       layers = \<lparr>sha256 = None, phash = None\<rparr>\<rparr>,
      e\<lparr>sha256_archive :=
          (sha256_archive e)(sha256_hexdigest w (file_bytes w fp) \<mapsto> os_path_basename fp)\<rparr>)"
proof -
  obtain err where v: "validate_file w fp = (True, err)"
    using assms(1) by (cases "validate_file w fp") auto
  have l: "load_as_pil w (e\<lparr>sha256_archive := a\<rparr>) fp = None" for a
    using assms(2) by (simp add: load_as_pil_sha256_archive)
  have s: "sha256_layer e (sha256_hexdigest w (file_bytes w fp)) = None"
    using assms(3) by (simp add: sha256_layer_def)
  show ?thesis
    unfolding analyze_against_archive_def v Let_def split_conv file_sha256_whole l s
    by (simp add: List.map_filter_simps)
qed

lemma analyze_not_rendered_hit:
  assumes "fst (validate_file w fp)" and "load_as_pil w e fp = None"
    and "sha256_layer e (sha256_hexdigest w (file_bytes w fp)) = Some s"
  shows "analyze_against_archive w e fp =
     (report_of s (os_path_basename fp) (length (phash_archive e)) ''sha256_only''
        \<lparr>sha256 = Some s, phash = None\<rparr>,
      e\<lparr>sha256_archive :=
          (sha256_archive e)(sha256_hexdigest w (file_bytes w fp) \<mapsto> os_path_basename fp)\<rparr>)"
proof -
  obtain err where v: "validate_file w fp = (True, err)"
    using assms(1) by (cases "validate_file w fp") auto
  have l: "load_as_pil w (e\<lparr>sha256_archive := a\<rparr>) fp = None" for a
    using assms(2) by (simp add: load_as_pil_sha256_archive)
  show ?thesis
    unfolding analyze_against_archive_def v Let_def split_conv file_sha256_whole l assms(3)
    by (simp add: List.map_filter_simps max_by_key_def report_of_def)
qed

lemma analyze_rendered:
  assumes "fst (validate_file w fp)" and "load_as_pil w e fp = Some im"
    and "phash_layer w
           (e\<lparr>sha256_archive :=
               (sha256_archive e)(sha256_hexdigest w (file_bytes w fp) \<mapsto> os_path_basename fp)\<rparr>)
           (os_path_basename fp) im = (p, m, e2)"
  shows "analyze_against_archive w e fp =
     (report_of
        (case sha256_layer e (sha256_hexdigest w (file_bytes w fp)) of
           None \<Rightarrow> p
         | Some s \<Rightarrow> if fraud_risk_score p > fraud_risk_score s then p else s)
        (os_path_basename fp) (length (phash_archive e2)) m
        \<lparr>sha256 = sha256_layer e (sha256_hexdigest w (file_bytes w fp)), phash = Some p\<rparr>, e2)"
proof -
  obtain err where v: "validate_file w fp = (True, err)"
    using assms(1) by (cases "validate_file w fp") auto
  have l: "load_as_pil w (e\<lparr>sha256_archive := a\<rparr>) fp = Some im" for a
    using assms(2) by (simp add: load_as_pil_sha256_archive)
  show ?thesis
  proof (cases "sha256_layer e (sha256_hexdigest w (file_bytes w fp))")
    case None
    then show ?thesis
      unfolding analyze_against_archive_def v Let_def split_conv file_sha256_whole l
      by (simp add: assms(3) List.map_filter_simps max_by_key_def report_of_def)
  next
    case (Some s)
    then show ?thesis
      unfolding analyze_against_archive_def v Let_def split_conv file_sha256_whole l
      by (simp add: assms(3) List.map_filter_simps max_by_key_def report_of_def)
  qed
qed

lemma phash_layer_none:
  assumes "closest_phash (generate_phash w im) (phash_archive e) = (None, d, n)"
  shows "phash_layer w e b im =
     (first_upload, render_method_of w,
      e\<lparr>phash_archive := dict_setitem (phash_archive e) (uuid4 w) (b, generate_phash w im)\<rparr>)"
  unfolding phash_layer_def Let_def assms split_conv
  by (simp add: first_upload_def render_method_of_def)

lemma phash_layer_some:
  assumes "closest_phash (generate_phash w im) (phash_archive e) = (Some aid, d, n)"
  shows "phash_layer w e b im =
     (match_finding e d n, render_method_of w,
      e\<lparr>phash_archive := dict_setitem (phash_archive e) (uuid4 w) (b, generate_phash w im)\<rparr>)"
  unfolding phash_layer_def Let_def assms split_conv
  by (simp add: render_method_of_def match_finding_def case_prod_beta)

lemma match_finding_sha256_archive:
  "match_finding (e\<lparr>sha256_archive := a\<rparr>) d n = match_finding e d n"
  by (simp add: match_finding_def)

subsection \<open>The digest layer\<close>

lemma digest_layer_step:
  assumes "fst (validate_file w file_path)"
  shows "sha256 (layers (fst (analyze_against_archive w e file_path))) =
           sha256_layer e (file_sha256 w file_path) \<and>
         sha256_archive (snd (analyze_against_archive w e file_path)) =
           (sha256_archive e)(file_sha256 w file_path \<mapsto> os_path_basename file_path)"
proof (cases "load_as_pil w e file_path")
  case None
  show ?thesis
  proof (cases "sha256_layer e (sha256_hexdigest w (file_bytes w file_path))")
    case n: None
    then have "sha256_archive e (sha256_hexdigest w (file_bytes w file_path)) = None"
      by (simp add: sha256_layer_def split: option.splits)
    from analyze_not_rendered_miss [OF assms None this] n show ?thesis
      by (simp add: file_sha256_whole)
  next
    case (Some s)
    from analyze_not_rendered_hit [OF assms None Some] Some show ?thesis
      by (simp add: file_sha256_whole report_of_sel)
  qed
next
  case (Some im)
  obtain p m e2 where pl: "phash_layer w
           (e\<lparr>sha256_archive :=
               (sha256_archive e)(sha256_hexdigest w (file_bytes w file_path) \<mapsto> os_path_basename file_path)\<rparr>)
           (os_path_basename file_path) im = (p, m, e2)"
    by (metis prod_cases3)
  have "e2 = snd (snd (phash_layer w
           (e\<lparr>sha256_archive :=
               (sha256_archive e)(sha256_hexdigest w (file_bytes w file_path) \<mapsto> os_path_basename file_path)\<rparr>)
           (os_path_basename file_path) im))"
    by (simp add: pl)
  then have "sha256_archive e2 =
      (sha256_archive e)(sha256_hexdigest w (file_bytes w file_path) \<mapsto> os_path_basename file_path)"
    by (simp add: phash_layer_engine)
  with analyze_rendered [OF assms Some pl] show ?thesis
    by (simp add: file_sha256_whole report_of_sel)
qed

text \<open>
  C1 (amended). For every submission that passes validation: if the file's digest is in the
  digest archive, the digest layer produces the finding with risk 95, the label
  \<^verbatim>\<open>Critical - Exact Byte Duplicate (SHA-256)\<close> (with an em dash), Hamming distance 0,
  similarity 100, the fraud flag set and the archived display name as matched file; if not,
  it produces no finding. In both cases the archive entry of the digest is then set to the
  current submitter's display name.
\<close>

theorem C1_digest_layer:
  assumes "fst (validate_file w file_path)"
  shows "sha256 (layers (fst (analyze_against_archive w e file_path))) =
           (case sha256_archive e (file_sha256 w file_path) of
              Some matched_name \<Rightarrow>
                Some \<lparr>matched_file = Some matched_name,
                      similarity_percent = 100,
                      fraud_risk_score = 95,
                      classification =
                        ''Critical '' @ em_dash @ '' Exact Byte Duplicate (SHA-256)'',
                      fraud_detected = True,
                      hamming_distance = Some 0\<rparr>
            | None \<Rightarrow> None) \<and>
         sha256_archive (snd (analyze_against_archive w e file_path)) =
           (sha256_archive e)(file_sha256 w file_path \<mapsto> os_path_basename file_path)"
  using digest_layer_step [OF assms, of e] by (simp add: sha256_layer_def)


subsection \<open>Runs in the example world\<close>

lemma example_engine_eq:
  "example_engine =
     \<lparr>threshold = 10, poppler_path = None, phash_archive = [], sha256_archive = Map.empty\<rparr>"
  by (simp add: example_engine_def ImageForensicsEngine_def truthy_def get_poppler_path_def
      example_world_def)

lemma example_validate:
  "p \<noteq> ''uploads/missing.png'' \<Longrightarrow> p \<noteq> ''uploads/empty.png'' \<Longrightarrow>
   validate_file (example_world u) p = (True, [])"
  by (simp add: validate_file_def example_world_def)

lemma example_basename:
  "os_path_basename ''uploads/a.png'' = ''a.png''"
  "os_path_basename ''uploads/b.png'' = ''b.png''"
  "os_path_basename ''uploads/c.png'' = ''c.png''"
  "os_path_basename ''uploads/scan.pdf'' = ''scan.pdf''"
  "os_path_basename ''uploads/broken.pdf'' = ''broken.pdf''"
  "os_path_basename ''uploads/empty.png'' = ''empty.png''"
  by (simp_all add: os_path_basename_def rfind_def)

lemma example_ext:
  "str_lower (snd (os_path_splitext ''uploads/a.png'')) = ''.png''"
  "str_lower (snd (os_path_splitext ''uploads/b.png'')) = ''.png''"
  "str_lower (snd (os_path_splitext ''uploads/c.png'')) = ''.png''"
  "str_lower (snd (os_path_splitext ''uploads/scan.pdf'')) = ''.pdf''"
  "str_lower (snd (os_path_splitext ''uploads/broken.pdf'')) = ''.pdf''"
  by (simp_all add: os_path_splitext_def rfind_def str_lower_def lower_char_def)

lemma example_load_png:
  "load_as_pil (example_world u) e ''uploads/a.png'' = Some 11"
  "load_as_pil (example_world u) e ''uploads/b.png'' = Some 11"
  "load_as_pil (example_world u) e ''uploads/c.png'' = Some 12"
  unfolding load_as_pil_def example_ext Let_def
  by (simp_all add: SUPPORTED_IMAGE_EXTS_def open_convert_L_def example_world_def)

lemma example_load_pdf:
  "load_as_pil (example_world u) e ''uploads/scan.pdf'' = Some 13"
  "load_as_pil (example_world u) e ''uploads/broken.pdf'' = None"
  unfolding load_as_pil_def example_ext Let_def
  by (simp_all add: pdf_to_pil_def fitz_try_def pdf2image_try_def example_world_def)

lemma example_digest:
  "file_sha256 (example_world u) ''uploads/a.png'' = ''123''"
  "file_sha256 (example_world u) ''uploads/b.png'' = ''123''"
  "file_sha256 (example_world u) ''uploads/c.png'' = ''4''"
  "file_sha256 (example_world u) ''uploads/scan.pdf'' = ''56''"
  "file_sha256 (example_world u) ''uploads/broken.pdf'' = ''777''"
  by (simp_all add: file_sha256_whole example_world_def toy_digest_def)

lemma example_phash:
  "generate_phash (example_world u) 11 = 0"
  "generate_phash (example_world u) 12 = - 1"
  "generate_phash (example_world u) 13 = 7"
  by (simp_all add: generate_phash_def example_world_def)

lemma example_flags:
  "render_method_of (example_world u) = ''fitz''"
  "uuid4 (example_world u) = u"
  "FITZ_SUPPORT (example_world u)"
  by (simp_all add: render_method_of_def example_world_def)

lemma example_hamming:
  "hamming 0 0 = 0" "hamming (- 1) 0 = 64" "hamming 7 0 = 3"
  by code_simp+

lemma closest_phash_Nil: "closest_phash h [] = (None, 64, None)"
  by (simp add: closest_phash_def)

lemma closest_phash_single:
  "closest_phash h [(aid, an, ah)] =
     (if hamming h ah < 64 then (Some aid, hamming h ah, Some an) else (None, 64, None))"
  by (simp add: closest_phash_def scan_step_eq)

lemma analyze_rendered_none:
  assumes v: "fst (validate_file w fp)" and l: "load_as_pil w e fp = Some im"
    and c: "closest_phash (generate_phash w im) (phash_archive e) = (None, d, n)"
  shows "analyze_against_archive w e fp =
     (report_of
        (case sha256_layer e (file_sha256 w fp) of
           None \<Rightarrow> first_upload
         | Some s \<Rightarrow> if fraud_risk_score first_upload > fraud_risk_score s then first_upload else s)
        (os_path_basename fp)
        (length (dict_setitem (phash_archive e) (uuid4 w) (os_path_basename fp, generate_phash w im)))
        (render_method_of w)
        \<lparr>sha256 = sha256_layer e (file_sha256 w fp), phash = Some first_upload\<rparr>,
      e\<lparr>sha256_archive := (sha256_archive e)(file_sha256 w fp \<mapsto> os_path_basename fp),
        phash_archive :=
          dict_setitem (phash_archive e) (uuid4 w) (os_path_basename fp, generate_phash w im)\<rparr>)"
proof -
  let ?e1 = "e\<lparr>sha256_archive :=
               (sha256_archive e)(sha256_hexdigest w (file_bytes w fp) \<mapsto> os_path_basename fp)\<rparr>"
  have "closest_phash (generate_phash w im) (phash_archive ?e1) = (None, d, n)"
    using c by simp
  from analyze_rendered [OF v l phash_layer_none [OF this]] show ?thesis
    by (simp add: file_sha256_whole)
qed

lemma analyze_rendered_some:
  assumes v: "fst (validate_file w fp)" and l: "load_as_pil w e fp = Some im"
    and c: "closest_phash (generate_phash w im) (phash_archive e) = (Some aid, d, n)"
  shows "analyze_against_archive w e fp =
     (report_of
        (case sha256_layer e (file_sha256 w fp) of
           None \<Rightarrow> match_finding e d n
         | Some s \<Rightarrow>
             if fraud_risk_score (match_finding e d n) > fraud_risk_score s
             then match_finding e d n else s)
        (os_path_basename fp)
        (length (dict_setitem (phash_archive e) (uuid4 w) (os_path_basename fp, generate_phash w im)))
        (render_method_of w)
        \<lparr>sha256 = sha256_layer e (file_sha256 w fp), phash = Some (match_finding e d n)\<rparr>,
      e\<lparr>sha256_archive := (sha256_archive e)(file_sha256 w fp \<mapsto> os_path_basename fp),
        phash_archive :=
          dict_setitem (phash_archive e) (uuid4 w) (os_path_basename fp, generate_phash w im)\<rparr>)"
proof -
  let ?e1 = "e\<lparr>sha256_archive :=
               (sha256_archive e)(sha256_hexdigest w (file_bytes w fp) \<mapsto> os_path_basename fp)\<rparr>"
  have "closest_phash (generate_phash w im) (phash_archive ?e1) = (Some aid, d, n)"
    using c by simp
  from analyze_rendered [OF v l phash_layer_some [OF this]] show ?thesis
    unfolding match_finding_sha256_archive by (simp add: file_sha256_whole)
qed

lemma engine_after_a_eq:
  "engine_after_a =
     \<lparr>threshold = 10, poppler_path = None,
      phash_archive = [(''id-1'', ''a.png'', 0)],
      sha256_archive = [''123'' \<mapsto> ''a.png'']\<rparr>"
proof -
  have v: "fst (validate_file (example_world ''id-1'') ''uploads/a.png'')"
    by (simp add: example_validate)
  have c: "closest_phash (generate_phash (example_world ''id-1'') 11) (phash_archive example_engine)
             = (None, 64, None)"
    by (simp add: example_engine_eq closest_phash_Nil)
  show ?thesis
    unfolding engine_after_a_def analyze_rendered_none [OF v example_load_png(1) c]
    by (simp add: example_engine_eq example_digest example_basename example_flags example_phash)
qed

lemma example_report_b:
  "fst (analyze_against_archive (example_world ''id-2'') engine_after_a ''uploads/b.png'') =
     \<lparr>matched_file = Some ''a.png'', similarity_percent = 100, fraud_risk_score = 95,
      classification = ''Critical '' @ em_dash @ '' Exact Byte Duplicate (SHA-256)'',
      fraud_detected = True, hamming_distance = Some 0,
      uploaded_file = ''b.png'', archive_size = 2, method = ''fitz'',
      layers =
        \<lparr>sha256 =
           Some \<lparr>matched_file = Some ''a.png'', similarity_percent = 100, fraud_risk_score = 95,
                 classification = ''Critical '' @ em_dash @ '' Exact Byte Duplicate (SHA-256)'',
                 fraud_detected = True, hamming_distance = Some 0\<rparr>,
         phash =
           Some \<lparr>matched_file = Some ''a.png'', similarity_percent = 100, fraud_risk_score = 95,
                 classification =
                   ''Critical Similarity '' @ em_dash @ '' Likely Duplicate (pHash)'',
                 fraud_detected = True, hamming_distance = Some 0\<rparr>\<rparr>\<rparr>"
proof -
  have v: "fst (validate_file (example_world ''id-2'') ''uploads/b.png'')"
    by (simp add: example_validate)
  have c: "closest_phash (generate_phash (example_world ''id-2'') 11) (phash_archive engine_after_a)
             = (Some ''id-1'', 0, Some ''a.png'')"
    by (simp add: engine_after_a_eq closest_phash_single example_phash example_hamming)
  have r: "py_round 100 2 = 100"
    by code_simp
  show ?thesis
    unfolding analyze_rendered_some [OF v example_load_png(2) c]
    by (simp add: engine_after_a_eq example_digest example_basename example_flags example_phash
        sha256_layer_def report_of_def risk_from_hamming_def match_finding_def r)
qed

lemma validate_file_fails_iff:
  "\<not> fst (validate_file w fp) \<longleftrightarrow>
     \<not> os_path_exists w fp \<or> os_path_getsize w fp = 0 \<or> os_path_getsize w fp > 50 * 1024 * 1024"
  by (simp add: validate_file_def Let_def)

lemma validate_file_cong:
  "os_path_exists w' fp = os_path_exists w fp \<Longrightarrow> os_path_getsize w' fp = os_path_getsize w fp \<Longrightarrow>
   validate_file w' fp = validate_file w fp"
  by (simp add: validate_file_def)

subsection \<open>Validation failures\<close>

text \<open>
  C5. When the file is missing, empty or larger than 50 MiB, the analysis returns the
  validation-failure report (risk 0, no fraud, classification \<^verbatim>\<open>Validation Failed\<close> followed
  by the reason), the engine with both archives is returned unchanged and the archive size
  is the one before the call. Neither layer runs: both layer results are absent, and the
  outcome is the same in every world that agrees on the existence and the size of the file,
  whatever its digest and its renderers do.
\<close>

theorem C5_validation_failure:
  fixes w :: "'img world"
  assumes "\<not> os_path_exists w fp \<or> os_path_getsize w fp = 0
             \<or> os_path_getsize w fp > 50 * 1024 * 1024"
  shows "analyze_against_archive w e fp =
           (\<lparr>matched_file = None, similarity_percent = 0, fraud_risk_score = 0,
             classification =
               ''Validation Failed '' @ em_dash @ '' '' @
                 (if \<not> os_path_exists w fp then ''File not found on disk''
                  else if os_path_getsize w fp = 0
                  then ''Empty file (0 bytes) '' @ em_dash @ '' rejected''
                  else ''File too large ('' @ str_int (os_path_getsize w fp div 1024 div 1024)
                         @ '' MB > 50 MB limit)''),
             fraud_detected = False, hamming_distance = None,
             uploaded_file = os_path_basename fp, archive_size = length (phash_archive e),
             method = ''validation_error'',
             layers = \<lparr>sha256 = None, phash = None\<rparr>\<rparr>, e) \<and>
         (\<forall>w' :: 'img world. os_path_exists w' fp = os_path_exists w fp \<and>
               os_path_getsize w' fp = os_path_getsize w fp \<longrightarrow>
               analyze_against_archive w' e fp = analyze_against_archive w e fp)"
    (is "?A \<and> ?B")
proof -
  have nv: "\<not> fst (validate_file w fp)"
    using assms by (simp add: validate_file_fails_iff)
  have msg: "snd (validate_file w fp) =
      (if \<not> os_path_exists w fp then ''File not found on disk''
       else if os_path_getsize w fp = 0
       then ''Empty file (0 bytes) '' @ em_dash @ '' rejected''
       else ''File too large ('' @ str_int (os_path_getsize w fp div 1024 div 1024)
              @ '' MB > 50 MB limit)'')"
    using assms by (auto simp: validate_file_def Let_def)
  have a: ?A
    using analyze_invalid [OF nv, of e] unfolding msg .
  have b: ?B
  proof (intro allI impI, elim conjE)
    fix w' :: "'img world"
    assume "os_path_exists w' fp = os_path_exists w fp"
      and "os_path_getsize w' fp = os_path_getsize w fp"
    then have eq: "validate_file w' fp = validate_file w fp"
      by (rule validate_file_cong)
    then have nv': "\<not> fst (validate_file w' fp)" using nv by simp
    show "analyze_against_archive w' e fp = analyze_against_archive w e fp"
      unfolding analyze_invalid [OF nv'] analyze_invalid [OF nv] eq by (rule refl)
  qed
  from a b show ?thesis ..
qed

subsection \<open>Rendering failures\<close>

text \<open>
  C6 (amended). When a validated document cannot be rendered and its digest is not in the
  digest archive, the analysis returns the degraded report: risk 10, classification
  \<^verbatim>\<open>Analysis Incomplete - Could Not Render Document\<close> (with an em dash), no fraud, and the
  method \<^verbatim>\<open>failed\<close>. The digest archive records the submission.
\<close>

theorem C6_degraded_finding:
  assumes "fst (validate_file w fp)" and "load_as_pil w e fp = None"
    and "sha256_archive e (file_sha256 w fp) = None"
  shows "analyze_against_archive w e fp =
     (\<lparr>matched_file = None, similarity_percent = 0, fraud_risk_score = 10,
       classification = ''Analysis Incomplete '' @ em_dash @ '' Could Not Render Document'',
       fraud_detected = False, hamming_distance = None,
       uploaded_file = os_path_basename fp, archive_size = length (phash_archive e),
       method = ''failed'',
       layers = \<lparr>sha256 = None, phash = None\<rparr>\<rparr>,
      e\<lparr>sha256_archive := (sha256_archive e)(file_sha256 w fp \<mapsto> os_path_basename fp)\<rparr>)"
  using analyze_not_rendered_miss [OF assms(1,2)] assms(3) by (simp add: file_sha256_whole)

subsection \<open>The method field\<close>

lemma render_method_step:
  assumes "fst (validate_file w fp)" and "load_as_pil w e fp = Some im"
  shows "method (fst (analyze_against_archive w e fp)) = render_method_of w"
proof -
  obtain p m e2 where pl: "phash_layer w
           (e\<lparr>sha256_archive :=
               (sha256_archive e)(sha256_hexdigest w (file_bytes w fp) \<mapsto> os_path_basename fp)\<rparr>)
           (os_path_basename fp) im = (p, m, e2)"
    by (metis prod_cases3)
  have "m = fst (snd (phash_layer w
           (e\<lparr>sha256_archive :=
               (sha256_archive e)(sha256_hexdigest w (file_bytes w fp) \<mapsto> os_path_basename fp)\<rparr>)
           (os_path_basename fp) im))"
    by (simp add: pl)
  then have "m = render_method_of w"
    by (simp add: phash_layer_method render_method_of_def)
  with analyze_rendered [OF assms pl] show ?thesis
    by (simp add: report_of_sel)
qed

text \<open>
  C10. Whenever a raster was produced, the method field depends on the import flags alone:
  \<^verbatim>\<open>fitz\<close> when the primary library is importable, whichever backend produced the raster.
\<close>

theorem C10_method_from_import_flags:
  assumes "fst (validate_file w fp)" and "load_as_pil w e fp = Some im"
  shows "method (fst (analyze_against_archive w e fp)) =
           (if FITZ_SUPPORT w then ''fitz''
            else if PDF2IMAGE_SUPPORT w then ''pdf2image'' else ''pil'')"
  using render_method_step [OF assms] by (simp add: render_method_of_def)

lemma engine_after_a_sel:
  "sha256_archive engine_after_a ''123'' = Some ''a.png''"
  "phash_archive engine_after_a = [(''id-1'', ''a.png'', 0)]"
  "threshold engine_after_a = 10"
  by (simp_all add: engine_after_a_eq)

text \<open>
  Witness for C1: \<^verbatim>\<open>a.png\<close> was submitted first; \<^verbatim>\<open>b.png\<close> holds the same bytes under another
  name. The digest layer matches the earlier name, and the archive entry then names the
  later submitter.
\<close>

theorem C1_digest_layer_witness:
  "fst (validate_file (example_world ''id-2'') ''uploads/b.png'') \<and>
   file_bytes (example_world ''id-2'') ''uploads/b.png'' =
     file_bytes (example_world ''id-1'') ''uploads/a.png'' \<and>
   sha256 (layers (fst (analyze_against_archive (example_world ''id-2'') engine_after_a
                          ''uploads/b.png''))) =
     Some \<lparr>matched_file = Some ''a.png'', similarity_percent = 100, fraud_risk_score = 95,
           classification = ''Critical '' @ em_dash @ '' Exact Byte Duplicate (SHA-256)'',
           fraud_detected = True, hamming_distance = Some 0\<rparr> \<and>
   sha256_archive (snd (analyze_against_archive (example_world ''id-2'') engine_after_a
                          ''uploads/b.png'')) ''123'' = Some ''b.png''"
proof -
  have v: "fst (validate_file (example_world ''id-2'') ''uploads/b.png'')"
    by (simp add: example_validate)
  have b: "file_bytes (example_world ''id-2'') ''uploads/b.png'' =
     file_bytes (example_world ''id-1'') ''uploads/a.png''"
    by (simp add: example_world_def)
  from C1_digest_layer [OF v, of engine_after_a] v b show ?thesis
    by (simp add: example_digest example_basename engine_after_a_sel)
qed

text \<open>
  Counterexample to C1 as stated: on a digest hit the label is not
  \<^verbatim>\<open>Critical - Exact Byte Duplicate\<close> alone; the code appends the layer tag \<^verbatim>\<open>(SHA-256)\<close>.
\<close>

theorem C1_label_counterexample:
  "fst (validate_file (example_world ''id-2'') ''uploads/b.png'') \<and>
   sha256_archive engine_after_a (file_sha256 (example_world ''id-2'') ''uploads/b.png'') =
     Some ''a.png'' \<and>
   sha256 (layers (fst (analyze_against_archive (example_world ''id-2'') engine_after_a
                          ''uploads/b.png''))) \<noteq>
     Some \<lparr>matched_file = Some ''a.png'', similarity_percent = 100, fraud_risk_score = 95,
           classification = ''Critical '' @ em_dash @ '' Exact Byte Duplicate'',
           fraud_detected = True, hamming_distance = Some 0\<rparr>"
  by (simp add: example_validate example_digest engine_after_a_sel example_report_b)

subsection \<open>The nearest neighbour of the fingerprint layer\<close>

text \<open>
  The scan starts from \<open>best_distance = 64\<close> and replaces it only by a strictly smaller
  distance. As soon as one archived entry is closer than 64 bits, the finding carries the
  least distance and the name of an entry at that distance; when every entry is at distance
  64, the finding is that of a first upload.
\<close>

lemma fingerprint_layer_nearest:
  assumes v: "fst (validate_file w fp)" and l: "load_as_pil w e fp = Some im"
    and m: "(aid0, an0, ah0) \<in> set (phash_archive e)"
    and d: "hamming (generate_phash w im) ah0 < 64"
  shows "\<exists>aid an ah f.
           (aid, an, ah) \<in> set (phash_archive e) \<and>
           (\<forall>(a, n, x) \<in> set (phash_archive e).
              spec_hamming_distance (generate_phash w im) ah
                \<le> spec_hamming_distance (generate_phash w im) x) \<and>
           phash (layers (fst (analyze_against_archive w e fp))) = Some f \<and>
           hamming_distance f = Some (spec_hamming_distance (generate_phash w im) ah) \<and>
           matched_file f = Some an"
proof -
  from closest_phash_min [OF m d] obtain aid an ah where
    a: "(aid, an, ah) \<in> set (phash_archive e)"
    and c: "closest_phash (generate_phash w im) (phash_archive e)
              = (Some aid, hamming (generate_phash w im) ah, Some an)"
    and le: "\<forall>(a, n, x) \<in> set (phash_archive e).
               hamming (generate_phash w im) ah \<le> hamming (generate_phash w im) x"
    by blast
  have "phash (layers (fst (analyze_against_archive w e fp))) =
          Some (match_finding e (hamming (generate_phash w im) ah) (Some an))"
    by (simp add: analyze_rendered_some [OF v l c] report_of_sel)
  with a le show ?thesis
    by (auto simp: match_finding_def hamming_eq_spec)
qed

lemma fingerprint_layer_all_far:
  assumes v: "fst (validate_file w fp)" and l: "load_as_pil w e fp = Some im"
    and far: "\<forall>(a, n, x) \<in> set (phash_archive e). hamming (generate_phash w im) x = 64"
  shows "phash (layers (fst (analyze_against_archive w e fp))) = Some first_upload"
proof -
  from closest_phash_cases [of "generate_phash w im" "phash_archive e"] far
  have c: "closest_phash (generate_phash w im) (phash_archive e) = (None, 64, None)"
    by fastforce
  show ?thesis
    by (simp add: analyze_rendered_none [OF v l c] report_of_sel)
qed

subsection \<open>Merging the two findings\<close>



text \<open>
  Witness for C5: a zero-byte file. The report is the validation failure, the engine is
  unchanged, and a world with another digest function and no renderer gives the same outcome.
\<close>

theorem C5_validation_failure_witness:
  "os_path_getsize (example_world ''id-2'') ''uploads/empty.png'' = 0 \<and>
   analyze_against_archive (example_world ''id-2'') engine_after_a ''uploads/empty.png'' =
     (\<lparr>matched_file = None, similarity_percent = 0, fraud_risk_score = 0,
       classification =
         ''Validation Failed '' @ em_dash @ '' Empty file (0 bytes) '' @ em_dash @ '' rejected'',
       fraud_detected = False, hamming_distance = None,
       uploaded_file = ''empty.png'', archive_size = 1,
       method = ''validation_error'',
       layers = \<lparr>sha256 = None, phash = None\<rparr>\<rparr>, engine_after_a) \<and>
   analyze_against_archive
     ((example_world ''id-3'')
        \<lparr>FITZ_SUPPORT := False, sha256_hexdigest := (\<lambda>bs. ''00''),
         Image_open := (\<lambda>p. Inl (Exception ''no decoder''))\<rparr>)
     engine_after_a ''uploads/empty.png'' =
   analyze_against_archive (example_world ''id-2'') engine_after_a ''uploads/empty.png''"
proof -
  let ?w = "example_world ''id-2''"
  let ?w' = "(example_world ''id-3'')
        \<lparr>FITZ_SUPPORT := False, sha256_hexdigest := (\<lambda>bs. ''00''),
         Image_open := (\<lambda>p. Inl (Exception ''no decoder''))\<rparr>"
  have z: "os_path_getsize ?w ''uploads/empty.png'' = 0"
    and x: "os_path_exists ?w ''uploads/empty.png''"
    by (simp_all add: example_world_def)
  have h: "\<not> os_path_exists ?w ''uploads/empty.png'' \<or> os_path_getsize ?w ''uploads/empty.png'' = 0
             \<or> os_path_getsize ?w ''uploads/empty.png'' > 50 * 1024 * 1024"
    using z by simp
  have same: "os_path_exists ?w' ''uploads/empty.png'' = os_path_exists ?w ''uploads/empty.png'' \<and>
              os_path_getsize ?w' ''uploads/empty.png'' = os_path_getsize ?w ''uploads/empty.png''"
    by (simp add: example_world_def)
  note t = C5_validation_failure [OF h, of engine_after_a]
  from t have a: "analyze_against_archive ?w engine_after_a ''uploads/empty.png'' =
     (\<lparr>matched_file = None, similarity_percent = 0, fraud_risk_score = 0,
       classification =
         ''Validation Failed '' @ em_dash @ '' Empty file (0 bytes) '' @ em_dash @ '' rejected'',
       fraud_detected = False, hamming_distance = None,
       uploaded_file = ''empty.png'', archive_size = 1,
       method = ''validation_error'',
       layers = \<lparr>sha256 = None, phash = None\<rparr>\<rparr>, engine_after_a)"
    by (simp add: z x example_basename engine_after_a_sel)
  from t same have b: "analyze_against_archive ?w' engine_after_a ''uploads/empty.png'' =
      analyze_against_archive ?w engine_after_a ''uploads/empty.png''"
    by blast
  from z a b show ?thesis by blast
qed

text \<open>
  Counterexample to C6 as stated: \<^verbatim>\<open>broken.pdf\<close> passes validation, no backend renders it and
  its digest is new; the method of the report is not the digest-only method
  \<^verbatim>\<open>sha256_only\<close>.
\<close>

theorem C6_method_counterexample:
  "fst (validate_file (example_world ''id-1'') ''uploads/broken.pdf'') \<and>
   load_as_pil (example_world ''id-1'') example_engine ''uploads/broken.pdf'' = None \<and>
   sha256_archive example_engine (file_sha256 (example_world ''id-1'') ''uploads/broken.pdf'') = None \<and>
   method (fst (analyze_against_archive (example_world ''id-1'') example_engine
                  ''uploads/broken.pdf'')) \<noteq> ''sha256_only''"
proof -
  let ?w = "example_world ''id-1''"
  have v: "fst (validate_file ?w ''uploads/broken.pdf'')"
    by (simp add: example_validate)
  have l: "load_as_pil ?w example_engine ''uploads/broken.pdf'' = None"
    by (rule example_load_pdf)
  have s: "sha256_archive example_engine (sha256_hexdigest ?w (file_bytes ?w ''uploads/broken.pdf''))
             = None"
    by (simp add: example_engine_eq)
  have "method (fst (analyze_against_archive ?w example_engine ''uploads/broken.pdf'')) = ''failed''"
    by (simp add: analyze_not_rendered_miss [OF v l s])
  with v l s show ?thesis
    by (simp add: file_sha256_whole)
qed

text \<open>Witness for C6: the same submission, with the whole degraded report.\<close>

theorem C6_degraded_finding_witness:
  "fst (validate_file (example_world ''id-1'') ''uploads/broken.pdf'') \<and>
   load_as_pil (example_world ''id-1'') example_engine ''uploads/broken.pdf'' = None \<and>
   sha256_archive example_engine (file_sha256 (example_world ''id-1'') ''uploads/broken.pdf'') = None \<and>
   fst (analyze_against_archive (example_world ''id-1'') example_engine ''uploads/broken.pdf'') =
     \<lparr>matched_file = None, similarity_percent = 0, fraud_risk_score = 10,
      classification = ''Analysis Incomplete '' @ em_dash @ '' Could Not Render Document'',
      fraud_detected = False, hamming_distance = None,
      uploaded_file = ''broken.pdf'', archive_size = 0,
      method = ''failed'',
      layers = \<lparr>sha256 = None, phash = None\<rparr>\<rparr>"
proof -
  let ?w = "example_world ''id-1''"
  have v: "fst (validate_file ?w ''uploads/broken.pdf'')"
    by (simp add: example_validate)
  have l: "load_as_pil ?w example_engine ''uploads/broken.pdf'' = None"
    by (rule example_load_pdf)
  have s: "sha256_archive example_engine (file_sha256 ?w ''uploads/broken.pdf'') = None"
    by (simp add: example_engine_eq)
  from C6_degraded_finding [OF v l s] v l s show ?thesis
    by (simp add: example_basename example_engine_eq)
qed

text \<open>
  Witness for C10: the primary library is importable and raises on \<^verbatim>\<open>scan.pdf\<close>, the
  fallback rasterizer produces the raster, and the method is \<^verbatim>\<open>fitz\<close>; likewise for
  \<^verbatim>\<open>c.png\<close>, which the bitmap decoder reads.
\<close>

theorem C10_method_from_import_flags_witness:
  "FITZ_SUPPORT (example_world ''id-2'') \<and>
   fitz_try (example_world ''id-2'') ''uploads/scan.pdf'' = Inl (Exception ''cannot open document'') \<and>
   pdf2image_try (example_world ''id-2'') engine_after_a ''uploads/scan.pdf'' = Inr (Some 13) \<and>
   load_as_pil (example_world ''id-2'') engine_after_a ''uploads/scan.pdf'' = Some 13 \<and>
   method (fst (analyze_against_archive (example_world ''id-2'') engine_after_a
                  ''uploads/scan.pdf'')) = ''fitz'' \<and>
   open_convert_L (example_world ''id-2'') ''uploads/c.png'' = Some 12 \<and>
   load_as_pil (example_world ''id-2'') engine_after_a ''uploads/c.png'' = Some 12 \<and>
   method (fst (analyze_against_archive (example_world ''id-2'') engine_after_a
                  ''uploads/c.png'')) = ''fitz''"
proof -
  let ?w = "example_world ''id-2''"
  have v1: "fst (validate_file ?w ''uploads/scan.pdf'')"
    and v2: "fst (validate_file ?w ''uploads/c.png'')"
    by (simp_all add: example_validate)
  have l1: "load_as_pil ?w engine_after_a ''uploads/scan.pdf'' = Some 13"
    and l2: "load_as_pil ?w engine_after_a ''uploads/c.png'' = Some 12"
    by (rule example_load_pdf example_load_png)+
  have f: "fitz_try ?w ''uploads/scan.pdf'' = Inl (Exception ''cannot open document'')"
    by (simp add: fitz_try_def example_world_def)
  have p: "pdf2image_try ?w engine_after_a ''uploads/scan.pdf'' = Inr (Some 13)"
    by (simp add: pdf2image_try_def example_world_def)
  have o: "open_convert_L ?w ''uploads/c.png'' = Some 12"
    by (simp add: open_convert_L_def example_world_def)
  from C10_method_from_import_flags [OF v1 l1] C10_method_from_import_flags [OF v2 l2]
    f p o l1 l2 show ?thesis
    by (simp add: example_flags)
qed

subsection \<open>Unfolding the pairwise comparison\<close>

lemma analyze_files_rendered:
  assumes "load_as_pil w e f1 = Some i1" and "load_as_pil w e f2 = Some i2"
  shows "analyze_files w e f1 f2 =
     (Inr \<lparr>hash_1 = ImageHash_str (generate_phash w i1),
            hash_2 = ImageHash_str (generate_phash w i2),
            comparison.hamming_distance = hamming (generate_phash w i1) (generate_phash w i2),
            comparison.similarity_percent =
              py_round (((64 - of_int (hamming (generate_phash w i1) (generate_phash w i2))) / 64)
                          * 100) 2,
            comparison.fraud_risk_score =
              fst (risk_from_hamming (hamming (generate_phash w i1) (generate_phash w i2))),
            comparison.classification =
              snd (risk_from_hamming (hamming (generate_phash w i1) (generate_phash w i2))),
            comparison.fraud_detected =
              (hamming (generate_phash w i1) (generate_phash w i2) \<le> threshold e)\<rparr>, e)"
  unfolding analyze_files_def Let_def assms
  by (simp add: case_prod_beta)

lemma analyze_files_not_rendered:
  assumes "load_as_pil w e f1 = None \<or> load_as_pil w e f2 = None"
  shows "analyze_files w e f1 f2 =
     (Inl (RuntimeError ''Could not render one or both files for comparison.''), e)"
  using assms unfolding analyze_files_def Let_def
  by (auto split: option.splits)


subsection \<open>The pairwise comparison\<close>

text \<open>
  C7. The pairwise comparison fails with the rendering error exactly when one of the two
  inputs cannot be rasterized; otherwise it returns the Hamming distance of the two
  fingerprints, the similarity and the classifier's risk and label for that distance. In
  every case the engine is returned as it was, and the result is the same for every engine
  with the same threshold and poppler path, whatever its two archives hold.
\<close>

theorem C7_analyze_files:
  fixes w :: "'img world"
  shows "snd (analyze_files w e f1 f2) = e \<and>
    (isl (fst (analyze_files w e f1 f2)) \<longleftrightarrow>
       load_as_pil w e f1 = None \<or> load_as_pil w e f2 = None) \<and>
    (isl (fst (analyze_files w e f1 f2)) \<longrightarrow>
       fst (analyze_files w e f1 f2) =
         Inl (RuntimeError ''Could not render one or both files for comparison.'')) \<and>
    (\<forall>i1 i2. load_as_pil w e f1 = Some i1 \<and> load_as_pil w e f2 = Some i2 \<longrightarrow>
       fst (analyze_files w e f1 f2) =
         (let d = spec_hamming_distance (generate_phash w i1) (generate_phash w i2)
          in Inr \<lparr>hash_1 = ImageHash_str (generate_phash w i1),
                  hash_2 = ImageHash_str (generate_phash w i2),
                  comparison.hamming_distance = d,
                  comparison.similarity_percent = py_round (((64 - of_int d) / 64) * 100) 2,
                  comparison.fraud_risk_score = fst (risk_from_hamming d),
                  comparison.classification = snd (risk_from_hamming d),
                  comparison.fraud_detected = (d \<le> threshold e)\<rparr>)) \<and>
    (\<forall>e'. threshold e' = threshold e \<and> poppler_path e' = poppler_path e \<longrightarrow>
       fst (analyze_files w e' f1 f2) = fst (analyze_files w e f1 f2))"
    (is "?A \<and> ?B \<and> ?C \<and> ?D \<and> ?E")
proof -
  have nr: "analyze_files w e f1 f2 =
      (Inl (RuntimeError ''Could not render one or both files for comparison.''), e)"
    if "load_as_pil w e f1 = None \<or> load_as_pil w e f2 = None"
    using that by (rule analyze_files_not_rendered)
  have both: "\<exists>i1 i2. load_as_pil w e f1 = Some i1 \<and> load_as_pil w e f2 = Some i2"
    if "\<not> (load_as_pil w e f1 = None \<or> load_as_pil w e f2 = None)"
    using that by auto
  have a: ?A
  proof (cases "load_as_pil w e f1 = None \<or> load_as_pil w e f2 = None")
    case True
    then show ?thesis by (simp add: nr)
  next
    case False
    from both [OF this] obtain i1 i2
      where "load_as_pil w e f1 = Some i1" "load_as_pil w e f2 = Some i2" by blast
    then show ?thesis by (simp add: analyze_files_rendered)
  qed
  have b: ?B
  proof (cases "load_as_pil w e f1 = None \<or> load_as_pil w e f2 = None")
    case True
    then show ?thesis by (simp add: nr)
  next
    case False
    from both [OF this] obtain i1 i2
      where l: "load_as_pil w e f1 = Some i1" "load_as_pil w e f2 = Some i2" by blast
    have "\<not> isl (fst (analyze_files w e f1 f2))"
      by (simp add: analyze_files_rendered [OF l])
    with False show ?thesis by simp
  qed
  have c: ?C
  proof
    assume "isl (fst (analyze_files w e f1 f2))"
    with b have "load_as_pil w e f1 = None \<or> load_as_pil w e f2 = None" by simp
    then show "fst (analyze_files w e f1 f2) =
        Inl (RuntimeError ''Could not render one or both files for comparison.'')"
      by (simp add: nr)
  qed
  have d: ?D
  proof (intro allI impI, elim conjE)
    fix i1 i2
    assume l: "load_as_pil w e f1 = Some i1" "load_as_pil w e f2 = Some i2"
    show "fst (analyze_files w e f1 f2) =
         (let d = spec_hamming_distance (generate_phash w i1) (generate_phash w i2)
          in Inr \<lparr>hash_1 = ImageHash_str (generate_phash w i1),
                  hash_2 = ImageHash_str (generate_phash w i2),
                  comparison.hamming_distance = d,
                  comparison.similarity_percent = py_round (((64 - of_int d) / 64) * 100) 2,
                  comparison.fraud_risk_score = fst (risk_from_hamming d),
                  comparison.classification = snd (risk_from_hamming d),
                  comparison.fraud_detected = (d \<le> threshold e)\<rparr>)"
      unfolding Let_def analyze_files_rendered [OF l] hamming_eq_spec fst_conv
      by (rule refl)
  qed
  have e: ?E
  proof (intro allI impI, elim conjE)
    fix e' :: engine
    assume t: "threshold e' = threshold e" and p: "poppler_path e' = poppler_path e"
    show "fst (analyze_files w e' f1 f2) = fst (analyze_files w e f1 f2)"
    proof (cases "load_as_pil w e f1 = None \<or> load_as_pil w e f2 = None")
      case True
      have "load_as_pil w e' f1 = None \<or> load_as_pil w e' f2 = None"
        unfolding load_as_pil_poppler [OF p] by (rule True)
      from analyze_files_not_rendered [OF this] nr [OF True]
      show ?thesis by simp
    next
      case False
      from both [OF this] obtain i1 i2
        where l: "load_as_pil w e f1 = Some i1" "load_as_pil w e f2 = Some i2" by blast
      have l': "load_as_pil w e' f1 = Some i1" "load_as_pil w e' f2 = Some i2"
        unfolding load_as_pil_poppler [OF p] by (rule l)+
      show ?thesis
        unfolding analyze_files_rendered [OF l] analyze_files_rendered [OF l'] fst_conv t
        by (rule refl)
    qed
  qed
  show ?thesis
    by (intro conjI a b c d e)
qed

lemma example_round: "py_round 0 2 = 0" "py_round 100 2 = 100"
  by code_simp+

lemma example_spec_distance2: "spec_hamming_distance 0 (- 1) = 64"
  by code_simp

lemma example_unique: "risk_from_hamming 64 = (5, ''Unique Document (pHash)'')"
  by (simp add: risk_from_hamming_def)

text \<open>
  Witness for C7: \<^verbatim>\<open>a.png\<close> and \<^verbatim>\<open>c.png\<close> render and their fingerprints differ in all 64
  bits; \<^verbatim>\<open>broken.pdf\<close> does not render; an engine with empty archives gives the same result
  as one with a stored submission.
\<close>

theorem C7_analyze_files_witness:
  "analyze_files (example_world ''id-2'') engine_after_a ''uploads/a.png'' ''uploads/c.png'' =
     (Inr \<lparr>hash_1 = ImageHash_str 0, hash_2 = ImageHash_str (- 1),
            comparison.hamming_distance = 64,
            comparison.similarity_percent = 0,
            comparison.fraud_risk_score = 5,
            comparison.classification = ''Unique Document (pHash)'',
            comparison.fraud_detected = False\<rparr>, engine_after_a) \<and>
   analyze_files (example_world ''id-2'') engine_after_a ''uploads/a.png'' ''uploads/broken.pdf'' =
     (Inl (RuntimeError ''Could not render one or both files for comparison.''), engine_after_a) \<and>
   fst (analyze_files (example_world ''id-2'') example_engine ''uploads/a.png'' ''uploads/c.png'') =
     fst (analyze_files (example_world ''id-2'') engine_after_a ''uploads/a.png'' ''uploads/c.png'')"
proof -
  let ?w = "example_world ''id-2''"
  note t1 = C7_analyze_files [of ?w engine_after_a "''uploads/a.png''" "''uploads/c.png''"]
  note t2 = C7_analyze_files [of ?w engine_after_a "''uploads/a.png''" "''uploads/broken.pdf''"]
  note st1 = t1 [THEN conjunct1]
  note res1 = t1 [THEN conjunct2, THEN conjunct2, THEN conjunct2, THEN conjunct1, rule_format]
  note ind1 = t1 [THEN conjunct2, THEN conjunct2, THEN conjunct2, THEN conjunct2, rule_format]
  note st2 = t2 [THEN conjunct1]
  note iff2 = t2 [THEN conjunct2, THEN conjunct1]
  note err2 = t2 [THEN conjunct2, THEN conjunct2, THEN conjunct1, rule_format]
  have l: "load_as_pil ?w engine_after_a ''uploads/a.png'' = Some 11 \<and>
           load_as_pil ?w engine_after_a ''uploads/c.png'' = Some 12"
    by (simp add: example_load_png)
  have f1: "fst (analyze_files ?w engine_after_a ''uploads/a.png'' ''uploads/c.png'') =
     Inr \<lparr>hash_1 = ImageHash_str 0, hash_2 = ImageHash_str (- 1),
            comparison.hamming_distance = 64,
            comparison.similarity_percent = 0,
            comparison.fraud_risk_score = 5,
            comparison.classification = ''Unique Document (pHash)'',
            comparison.fraud_detected = False\<rparr>"
    unfolding res1 [OF l] example_phash example_spec_distance2 Let_def example_unique
      engine_after_a_sel
    by (simp add: example_round)
  have a: "analyze_files ?w engine_after_a ''uploads/a.png'' ''uploads/c.png'' =
     (Inr \<lparr>hash_1 = ImageHash_str 0, hash_2 = ImageHash_str (- 1),
            comparison.hamming_distance = 64,
            comparison.similarity_percent = 0,
            comparison.fraud_risk_score = 5,
            comparison.classification = ''Unique Document (pHash)'',
            comparison.fraud_detected = False\<rparr>, engine_after_a)"
    by (rule prod_eqI) (simp_all only: fst_conv snd_conv f1 st1)
  have "load_as_pil ?w engine_after_a ''uploads/a.png'' = None \<or>
        load_as_pil ?w engine_after_a ''uploads/broken.pdf'' = None"
    by (simp add: example_load_pdf)
  then have "isl (fst (analyze_files ?w engine_after_a ''uploads/a.png'' ''uploads/broken.pdf''))"
    by (simp only: iff2)
  then have f2: "fst (analyze_files ?w engine_after_a ''uploads/a.png'' ''uploads/broken.pdf'') =
         Inl (RuntimeError ''Could not render one or both files for comparison.'')"
    by (rule err2)
  have b: "analyze_files ?w engine_after_a ''uploads/a.png'' ''uploads/broken.pdf'' =
     (Inl (RuntimeError ''Could not render one or both files for comparison.''), engine_after_a)"
    by (rule prod_eqI) (simp_all only: fst_conv snd_conv f2 st2)
  have "threshold example_engine = threshold engine_after_a \<and>
        poppler_path example_engine = poppler_path engine_after_a"
    by (simp add: example_engine_eq engine_after_a_eq)
  then have c:
    "fst (analyze_files ?w example_engine ''uploads/a.png'' ''uploads/c.png'') =
     fst (analyze_files ?w engine_after_a ''uploads/a.png'' ''uploads/c.png'')"
    by (rule ind1)
  show ?thesis
    by (intro conjI a b c)
qed

subsection \<open>Similarity and the fraud flag\<close>

lemma round_half_even_mono:
  assumes "x \<le> y"
  shows "round_half_even x \<le> round_half_even y"
proof -
  have fx: "of_int \<lfloor>x\<rfloor> \<le> x" "x < of_int \<lfloor>x\<rfloor> + 1"
    and fy: "of_int \<lfloor>y\<rfloor> \<le> y" "y < of_int \<lfloor>y\<rfloor> + 1"
    by linarith+
  have le: "\<lfloor>x\<rfloor> \<le> \<lfloor>y\<rfloor>"
    using assms by (rule floor_mono)
  have lo: "\<lfloor>x\<rfloor> \<le> round_half_even x" "round_half_even x \<le> \<lfloor>x\<rfloor> + 1"
    and hi: "\<lfloor>y\<rfloor> \<le> round_half_even y" "round_half_even y \<le> \<lfloor>y\<rfloor> + 1"
    by (simp_all add: round_half_even_def Let_def)
  show ?thesis
  proof (cases "\<lfloor>x\<rfloor> = \<lfloor>y\<rfloor>")
    case True
    then have "x - of_int \<lfloor>x\<rfloor> \<le> y - of_int \<lfloor>y\<rfloor>"
      using assms by simp
    with True show ?thesis
      by (auto simp: round_half_even_def Let_def)
  next
    case False
    with le have "\<lfloor>x\<rfloor> + 1 \<le> \<lfloor>y\<rfloor>" by simp
    with lo hi show ?thesis by linarith
  qed
qed

lemma py_round_mono: "x \<le> y \<Longrightarrow> py_round x n \<le> py_round y n"
proof -
  assume "x \<le> y"
  then have "x * 10 ^ n \<le> y * 10 ^ n"
    by (simp add: mult_right_mono)
  then have "round_half_even (x * 10 ^ n) \<le> round_half_even (y * 10 ^ n)"
    by (rule round_half_even_mono)
  then have "(of_int (round_half_even (x * 10 ^ n)) :: rat) \<le> of_int (round_half_even (y * 10 ^ n))"
    by simp
  then show ?thesis
    unfolding py_round_def by (rule divide_right_mono) simp
qed

lemma similarity_antimono:
  fixes d1 d2 :: int
  assumes "d1 \<le> d2"
  shows "py_round (((64 - of_int d2) / 64) * 100) 2 \<le> py_round (((64 - of_int d1) / 64) * 100) 2"
proof (rule py_round_mono)
  have "(of_int d1 :: rat) \<le> of_int d2" using assms by simp
  then show "((64 - of_int d2) / 64) * 100 \<le> ((64 - of_int d1) / 64) * (100 :: rat)"
    by (simp add: divide_right_mono)
qed

lemma phash_finding_cases:
  assumes "phash (layers (fst (analyze_against_archive w e fp))) = Some f"
  shows "f = first_upload \<or> (\<exists>d n. 0 \<le> d \<and> d \<le> 64 \<and> f = match_finding e d n)"
proof (cases "fst (validate_file w fp)")
  case False
  with assms show ?thesis by (simp add: analyze_invalid)
next
  case v: True
  show ?thesis
  proof (cases "load_as_pil w e fp")
    case None
    show ?thesis
    proof (cases "sha256_layer e (sha256_hexdigest w (file_bytes w fp))")
      case n: None
      then have "sha256_archive e (sha256_hexdigest w (file_bytes w fp)) = None"
        by (simp add: sha256_layer_def split: option.splits)
      from analyze_not_rendered_miss [OF v None this] assms show ?thesis
        by simp
    next
      case (Some s)
      from analyze_not_rendered_hit [OF v None Some] assms show ?thesis
        by (simp add: report_of_sel)
    qed
  next
    case (Some im)
    from closest_phash_cases [of "generate_phash w im" "phash_archive e"]
    show ?thesis
    proof
      assume c: "closest_phash (generate_phash w im) (phash_archive e) = (None, 64, None)"
      from analyze_rendered_none [OF v Some c] assms show ?thesis
        by (simp add: report_of_sel)
    next
      assume "\<exists>aid an ah. (aid, an, ah) \<in> set (phash_archive e) \<and>
         hamming (generate_phash w im) ah < 64 \<and>
         closest_phash (generate_phash w im) (phash_archive e)
           = (Some aid, hamming (generate_phash w im) ah, Some an) \<and>
         (\<forall>(a, n, x) \<in> set (phash_archive e).
            hamming (generate_phash w im) ah \<le> hamming (generate_phash w im) x)"
      then obtain aid an ah where
        c: "closest_phash (generate_phash w im) (phash_archive e)
              = (Some aid, hamming (generate_phash w im) ah, Some an)"
        by blast
      from analyze_rendered_some [OF v Some c] assms
      have "f = match_finding e (hamming (generate_phash w im) ah) (Some an)"
        by (simp add: report_of_sel)
      with hamming_bounds [of "generate_phash w im" ah] show ?thesis
        by blast
    qed
  qed
qed


text \<open>
  C9. For every distance \<open>d\<close> that the fingerprint layer or the pairwise comparison reports,
  \<open>d\<close> lies between 0 and 64, the similarity is \<^verbatim>\<open>round(((64 - d) / 64) * 100, 2)\<close> and the
  fraud flag is \<open>d \<le> threshold\<close>; the similarity does not increase when the distance grows;
  and an engine built without a threshold argument has the threshold 10.
\<close>

theorem C9_similarity_and_threshold:
  fixes w :: "'img world" and w0 :: "'img0 world"
  shows
    "(phash (layers (fst (analyze_against_archive w e fp))) = Some f \<and>
        hamming_distance f = Some d \<longrightarrow>
        0 \<le> d \<and> d \<le> 64 \<and>
        similarity_percent f = py_round (((64 - of_int d) / 64) * 100) 2 \<and>
        fraud_detected f = (d \<le> threshold e)) \<and>
     (fst (analyze_files w e f1 f2) = Inr c \<longrightarrow>
        0 \<le> comparison.hamming_distance c \<and> comparison.hamming_distance c \<le> 64 \<and>
        comparison.similarity_percent c =
          py_round (((64 - of_int (comparison.hamming_distance c)) / 64) * 100) 2 \<and>
        comparison.fraud_detected c = (comparison.hamming_distance c \<le> threshold e)) \<and>
     (\<forall>d1 d2 :: int. d1 < d2 \<longrightarrow>
        py_round (((64 - of_int d2) / 64) * 100) 2 \<le> py_round (((64 - of_int d1) / 64) * 100) 2) \<and>
     threshold (ImageForensicsEngine w0 None poppler_path_arg) = 10"
    (is "?A \<and> ?B \<and> ?C \<and> ?D")
proof -
  have a: ?A
  proof
    assume h: "phash (layers (fst (analyze_against_archive w e fp))) = Some f \<and>
        hamming_distance f = Some d"
    then have "f = first_upload \<or> (\<exists>d' n. 0 \<le> d' \<and> d' \<le> 64 \<and> f = match_finding e d' n)"
      using phash_finding_cases by blast
    moreover have "f \<noteq> first_upload"
      using h by (auto simp: first_upload_def)
    ultimately obtain d' n where b: "0 \<le> d'" "d' \<le> 64" and f: "f = match_finding e d' n"
      by blast
    from h f have "d' = d" by (simp add: match_finding_def)
    with b f show "0 \<le> d \<and> d \<le> 64 \<and>
        similarity_percent f = py_round (((64 - of_int d) / 64) * 100) 2 \<and>
        fraud_detected f = (d \<le> threshold e)"
      by (simp add: match_finding_def)
  qed
  have b: ?B
  proof
    assume r: "fst (analyze_files w e f1 f2) = Inr c"
    have "\<not> (load_as_pil w e f1 = None \<or> load_as_pil w e f2 = None)"
    proof
      assume "load_as_pil w e f1 = None \<or> load_as_pil w e f2 = None"
      from analyze_files_not_rendered [OF this] r show False by simp
    qed
    then obtain i1 i2 where l: "load_as_pil w e f1 = Some i1" "load_as_pil w e f2 = Some i2"
      by auto
    from analyze_files_rendered [OF l] r hamming_bounds [of "generate_phash w i1" "generate_phash w i2"]
    show "0 \<le> comparison.hamming_distance c \<and> comparison.hamming_distance c \<le> 64 \<and>
        comparison.similarity_percent c =
          py_round (((64 - of_int (comparison.hamming_distance c)) / 64) * 100) 2 \<and>
        comparison.fraud_detected c = (comparison.hamming_distance c \<le> threshold e)"
      by auto
  qed
  have c: ?C
    using similarity_antimono by simp
  have d: ?D
    by (simp add: ImageForensicsEngine_def)
  show ?thesis
    by (intro conjI a b c d)
qed

lemma example_round_3: "py_round (((64 - of_int (3 :: int)) / 64) * 100) 2 = 9531 / 100"
  by code_simp

text \<open>At distance 62 the operand is 3.125, a tie, which rounds to the even 3.12.\<close>

lemma example_round_62: "py_round (((64 - of_int (62 :: int)) / 64) * 100) 2 = 78 / 25"
  by code_simp

lemma example_phash_scan:
  "phash (layers (fst (analyze_against_archive (example_world ''id-2'') engine_after_a
                         ''uploads/scan.pdf''))) =
     Some \<lparr>matched_file = Some ''a.png'', similarity_percent = 9531 / 100,
           fraud_risk_score = 95,
           classification = ''Critical Similarity '' @ em_dash @ '' Likely Duplicate (pHash)'',
           fraud_detected = True, hamming_distance = Some 3\<rparr>"
proof -
  have v: "fst (validate_file (example_world ''id-2'') ''uploads/scan.pdf'')"
    by (simp add: example_validate)
  have c: "closest_phash (generate_phash (example_world ''id-2'') 13) (phash_archive engine_after_a)
             = (Some ''id-1'', 3, Some ''a.png'')"
    by (simp add: engine_after_a_sel closest_phash_single example_phash example_hamming)
  have r: "risk_from_hamming 3 =
             (95, ''Critical Similarity '' @ em_dash @ '' Likely Duplicate (pHash)'')"
    by (simp add: risk_from_hamming_def)
  show ?thesis
    unfolding analyze_rendered_some [OF v example_load_pdf(1) c] fst_conv report_of_sel
      layers_dict.simps match_finding_def example_round_3 r engine_after_a_sel
    by simp
qed


lemma example_compare_a_c:
  "fst (analyze_files (example_world ''id-2'') engine_after_a ''uploads/a.png'' ''uploads/c.png'') =
     Inr \<lparr>hash_1 = ImageHash_str 0, hash_2 = ImageHash_str (- 1),
            comparison.hamming_distance = 64,
            comparison.similarity_percent = 0,
            comparison.fraud_risk_score = 5,
            comparison.classification = ''Unique Document (pHash)'',
            comparison.fraud_detected = False\<rparr>"
proof -
  have h: "hamming 0 (- 1) = 64"
    by code_simp
  show ?thesis
    unfolding analyze_files_rendered [OF example_load_png(1) example_load_png(3)] fst_conv
      example_phash h example_unique engine_after_a_sel
    by (simp add: example_round)
qed

text \<open>
  Witness for C9: \<^verbatim>\<open>scan.pdf\<close> lies 3 bits from the archived fingerprint, so its similarity is
  95.31 and it is flagged under the default threshold; \<^verbatim>\<open>a.png\<close> and \<^verbatim>\<open>c.png\<close> lie 64 bits
  apart, with similarity 0 and no flag; the similarity at distance 4 is below the one at
  distance 3.
\<close>

theorem C9_similarity_and_threshold_witness:
  "phash (layers (fst (analyze_against_archive (example_world ''id-2'') engine_after_a
                         ''uploads/scan.pdf''))) =
     Some \<lparr>matched_file = Some ''a.png'', similarity_percent = 9531 / 100,
           fraud_risk_score = 95,
           classification = ''Critical Similarity '' @ em_dash @ '' Likely Duplicate (pHash)'',
           fraud_detected = True, hamming_distance = Some 3\<rparr> \<and>
   py_round (((64 - of_int (3 :: int)) / 64) * 100) 2 = 9531 / 100 \<and>
   (3 \<le> threshold engine_after_a) \<and>
   fst (analyze_files (example_world ''id-2'') engine_after_a ''uploads/a.png'' ''uploads/c.png'') =
     Inr \<lparr>hash_1 = ImageHash_str 0, hash_2 = ImageHash_str (- 1),
            comparison.hamming_distance = 64,
            comparison.similarity_percent = 0,
            comparison.fraud_risk_score = 5,
            comparison.classification = ''Unique Document (pHash)'',
            comparison.fraud_detected = False\<rparr> \<and>
   py_round (((64 - of_int (64 :: int)) / 64) * 100) 2 = 0 \<and>
   \<not> (64 \<le> threshold engine_after_a) \<and>
   py_round (((64 - of_int (4 :: int)) / 64) * 100) 2
     \<le> py_round (((64 - of_int (3 :: int)) / 64) * 100) 2 \<and>
   threshold (ImageForensicsEngine (example_world ''id-0'') None None) = 10"
proof -
  let ?w = "example_world ''id-2''"
  let ?f = "\<lparr>matched_file = Some ''a.png'', similarity_percent = 9531 / 100,
           fraud_risk_score = 95,
           classification = ''Critical Similarity '' @ em_dash @ '' Likely Duplicate (pHash)'',
           fraud_detected = True, hamming_distance = Some 3\<rparr>"
  let ?c = "\<lparr>hash_1 = ImageHash_str 0, hash_2 = ImageHash_str (- 1),
            comparison.hamming_distance = 64,
            comparison.similarity_percent = 0,
            comparison.fraud_risk_score = 5,
            comparison.classification = ''Unique Document (pHash)'',
            comparison.fraud_detected = False\<rparr>"
  note t = C9_similarity_and_threshold [of ?w engine_after_a "''uploads/scan.pdf''" ?f 3
      "''uploads/a.png''" "''uploads/c.png''" ?c "example_world ''id-0''" None]
  have p: "phash (layers (fst (analyze_against_archive ?w engine_after_a ''uploads/scan.pdf'')))
             = Some ?f \<and> hamming_distance ?f = Some 3"
    by (simp add: example_phash_scan)
  from t [THEN conjunct1, rule_format, OF p]
  have a: "py_round (((64 - of_int (3 :: int)) / 64) * 100) 2 = 9531 / 100"
    and a': "3 \<le> threshold engine_after_a"
    by simp_all
  from t [THEN conjunct2, THEN conjunct1, rule_format, OF example_compare_a_c]
  have b: "py_round (((64 - of_int (64 :: int)) / 64) * 100) 2 = 0"
    and b': "\<not> (64 \<le> threshold engine_after_a)"
    by simp_all
  have "(3 :: int) < 4" by simp
  from t [THEN conjunct2, THEN conjunct2, THEN conjunct1, rule_format, OF this]
  have c: "py_round (((64 - of_int (4 :: int)) / 64) * 100) 2
     \<le> py_round (((64 - of_int (3 :: int)) / 64) * 100) 2" .
  note d = t [THEN conjunct2, THEN conjunct2, THEN conjunct2]
  show ?thesis
    by (intro conjI example_phash_scan a a' example_compare_a_c b b' c d)
qed

subsection \<open>The fingerprint archive over a sequence of calls\<close>

lemma analyze_engine_not_rendered:
  assumes "\<not> renders w e fp"
  shows "phash_archive (snd (analyze_against_archive w e fp)) = phash_archive e \<and>
         poppler_path (snd (analyze_against_archive w e fp)) = poppler_path e \<and>
         archive_size (fst (analyze_against_archive w e fp)) = length (phash_archive e)"
proof (cases "fst (validate_file w fp)")
  case False
  then show ?thesis by (simp add: analyze_invalid)
next
  case v: True
  with assms have l: "load_as_pil w e fp = None"
    by (simp add: renders_def)
  show ?thesis
  proof (cases "sha256_layer e (sha256_hexdigest w (file_bytes w fp))")
    case None
    then have "sha256_archive e (sha256_hexdigest w (file_bytes w fp)) = None"
      by (simp add: sha256_layer_def split: option.splits)
    from analyze_not_rendered_miss [OF v l this] show ?thesis
      by simp
  next
    case (Some s)
    from analyze_not_rendered_hit [OF v l Some] show ?thesis
      by (simp add: report_of_sel)
  qed
qed

lemma analyze_engine_rendered:
  assumes v: "fst (validate_file w fp)" and l: "load_as_pil w e fp = Some im"
  shows "phash_archive (snd (analyze_against_archive w e fp)) =
           dict_setitem (phash_archive e) (uuid4 w) (os_path_basename fp, generate_phash w im) \<and>
         poppler_path (snd (analyze_against_archive w e fp)) = poppler_path e \<and>
         archive_size (fst (analyze_against_archive w e fp)) =
           length (dict_setitem (phash_archive e) (uuid4 w)
                     (os_path_basename fp, generate_phash w im))"
proof -
  from closest_phash_cases [of "generate_phash w im" "phash_archive e"]
  show ?thesis
  proof
    assume c: "closest_phash (generate_phash w im) (phash_archive e) = (None, 64, None)"
    show ?thesis
      by (simp add: analyze_rendered_none [OF v l c] report_of_sel)
  next
    assume "\<exists>aid an ah. (aid, an, ah) \<in> set (phash_archive e) \<and>
         hamming (generate_phash w im) ah < 64 \<and>
         closest_phash (generate_phash w im) (phash_archive e)
           = (Some aid, hamming (generate_phash w im) ah, Some an) \<and>
         (\<forall>(a, n, x) \<in> set (phash_archive e).
            hamming (generate_phash w im) ah \<le> hamming (generate_phash w im) x)"
    then obtain aid an ah where
      c: "closest_phash (generate_phash w im) (phash_archive e)
            = (Some aid, hamming (generate_phash w im) ah, Some an)"
      by blast
    show ?thesis
      by (simp add: analyze_rendered_some [OF v l c] report_of_sel)
  qed
qed






lemma analyze_all_snd_Cons:
  "snd (analyze_all e ((w, fp) # calls)) =
     snd (analyze_all (snd (analyze_against_archive w e fp)) calls)"
  by (simp split: prod.splits)









lemma example_engine_sel:
  "phash_archive example_engine = []"
  "threshold example_engine = 10"
  by (simp_all add: example_engine_eq)










subsection \<open>Fingerprints of the library\<close>

lemma popcount_without_top: "\<not> bit x 63 \<Longrightarrow> popcount x \<le> 63"
proof -
  assume n: "\<not> bit x 63"
  have "[0..<Suc 63] = [0..<63] @ [63::nat]"
    by (rule upt_Suc_append) simp
  then have "[0..<64] = [0..<63] @ [63::nat]"
    by simp
  then have "popcount x = length (filter (bit x) [0..<63])"
    using n by (simp add: popcount_def)
  also have "\<dots> \<le> length [0..<63::nat]"
    by (rule length_filter_le)
  finally show ?thesis by simp
qed

lemma phash_output_distance:
  assumes "phash_output a" and "phash_output b"
  shows "hamming a b < 64"
proof -
  have h: "hamming a b = int (popcount (a XOR b))"
    by (simp add: hamming_eq_spec spec_hamming_distance_def)
  consider "a = 0" | "b = 0" | "bit a 63" "bit b 63"
    using assms by (auto simp: phash_output_def)
  then show ?thesis
  proof cases
    case 1
    from assms(2) have "popcount b \<le> 32" by (simp add: phash_output_def)
    with 1 show ?thesis unfolding h by simp
  next
    case 2
    from assms(1) have "popcount a \<le> 32" by (simp add: phash_output_def)
    with 2 show ?thesis unfolding h by simp
  next
    case 3
    then have "\<not> bit (a XOR b) 63" by (simp add: bit_xor_iff)
    from popcount_without_top [OF this] show ?thesis unfolding h by simp
  qed
qed


lemma list_all_dict_setitem:
  "list_all P d \<Longrightarrow> P (k, v) \<Longrightarrow> list_all P (dict_setitem d k v)"
  by (induction d k v rule: dict_setitem.induct) auto

text \<open>
  Every fingerprint in the archive of an engine is a value of the library, when the calls
  that built the archive ran with the library.
\<close>

lemma library_archive_step:
  assumes lib: "\<forall>img. phash_output (imagehash_phash w img)"
    and inv: "list_all (\<lambda>(aid, an, ah). phash_output ah) (phash_archive e)"
  shows "list_all (\<lambda>(aid, an, ah). phash_output ah)
           (phash_archive (snd (analyze_against_archive w e fp)))"
proof (cases "renders w e fp")
  case True
  then obtain im where v: "fst (validate_file w fp)" and l: "load_as_pil w e fp = Some im"
    by (auto simp: renders_def)
  have "phash_output (generate_phash w im)"
    using lib by (simp add: generate_phash_def)
  with inv show ?thesis
    by (simp add: analyze_engine_rendered [OF v l] list_all_dict_setitem)
next
  case False
  with inv show ?thesis by (simp add: analyze_engine_not_rendered)
qed

lemma library_archive_all:
  assumes "\<forall>(w, fp) \<in> set calls. \<forall>img. phash_output (imagehash_phash w img)"
    and "list_all (\<lambda>(aid, an, ah). phash_output ah) (phash_archive e)"
  shows "list_all (\<lambda>(aid, an, ah). phash_output ah)
           (phash_archive (snd (analyze_all e calls)))"
  using assms
proof (induction calls arbitrary: e)
  case Nil
  then show ?case by simp
next
  case (Cons call calls)
  obtain w fp where call: "call = (w, fp)" by (cases call)
  from Cons.prems(1) have lib: "\<forall>img. phash_output (imagehash_phash w img)"
    and rest: "\<forall>(w, fp) \<in> set calls. \<forall>img. phash_output (imagehash_phash w img)"
    by (simp_all add: call)
  from library_archive_step [OF lib Cons.prems(2)]
  have "list_all (\<lambda>(aid, an, ah). phash_output ah)
          (phash_archive (snd (analyze_against_archive w e fp)))" .
  from Cons.IH [OF rest this] show ?case
    unfolding call analyze_all_snd_Cons .
qed

lemma nearest_fingerprint_in_range:
  assumes v: "fst (validate_file w fp)" and l: "load_as_pil w e fp = Some im"
    and ne: "phash_archive e \<noteq> []"
    and lib: "\<forall>img. phash_output (imagehash_phash w img)"
    and inv: "list_all (\<lambda>(aid, an, ah). phash_output ah) (phash_archive e)"
  shows "\<exists>aid an ah f.
           (aid, an, ah) \<in> set (phash_archive e) \<and>
           (\<forall>(a, n, x) \<in> set (phash_archive e).
              spec_hamming_distance (generate_phash w im) ah
                \<le> spec_hamming_distance (generate_phash w im) x) \<and>
           phash (layers (fst (analyze_against_archive w e fp))) = Some f \<and>
           hamming_distance f = Some (spec_hamming_distance (generate_phash w im) ah) \<and>
           matched_file f = Some an"
proof -
  from ne obtain aid0 an0 ah0 where m: "(aid0, an0, ah0) \<in> set (phash_archive e)"
    by (cases "phash_archive e") auto
  with inv have "phash_output ah0"
    by (auto simp: list_all_iff)
  moreover have "phash_output (generate_phash w im)"
    using lib by (simp add: generate_phash_def)
  ultimately have "hamming (generate_phash w im) ah0 < 64"
    by (simp add: phash_output_distance)
  from fingerprint_layer_nearest [OF v l m this] show ?thesis .
qed

text \<open>
  C2. A call with a renderable document on an engine whose fingerprint archive is not empty
  reports, in the finding of the fingerprint layer, the least Hamming distance (the
  population count of the XOR) between the new fingerprint and the entries present before
  the call, and as matched file the display name of an entry at that distance. The engine is
  any engine built by the constructor and earlier calls, and the fingerprints are values of
  the library.
\<close>

theorem C2_nearest_fingerprint:
  fixes w w0 :: "'img world"
  assumes "fst (validate_file w fp)" and "load_as_pil w e fp = Some im"
    and "phash_archive e \<noteq> []"
    and "e = snd (analyze_all (ImageForensicsEngine w0 threshold_arg poppler_path_arg) calls)"
    and "\<forall>(w', fp') \<in> set calls. \<forall>img. phash_output (imagehash_phash w' img)"
    and "\<forall>img. phash_output (imagehash_phash w img)"
  shows "\<exists>aid an ah f.
           (aid, an, ah) \<in> set (phash_archive e) \<and>
           (\<forall>(a, n, x) \<in> set (phash_archive e).
              spec_hamming_distance (generate_phash w im) ah
                \<le> spec_hamming_distance (generate_phash w im) x) \<and>
           phash (layers (fst (analyze_against_archive w e fp))) = Some f \<and>
           hamming_distance f = Some (spec_hamming_distance (generate_phash w im) ah) \<and>
           matched_file f = Some an"
proof -
  have "list_all (\<lambda>(aid, an, ah). phash_output ah)
          (phash_archive (ImageForensicsEngine w0 threshold_arg poppler_path_arg))"
    by (simp add: ImageForensicsEngine_def)
  from library_archive_all [OF assms(5) this]
  have "list_all (\<lambda>(aid, an, ah). phash_output ah) (phash_archive e)"
    unfolding assms(4) .
  from nearest_fingerprint_in_range [OF assms(1,2,3,6) this] show ?thesis .
qed


lemma renderers_ignore_phash:
  "fitz_try (w\<lparr>imagehash_phash := f\<rparr>) p = fitz_try w p"
  "pdf2image_try (w\<lparr>imagehash_phash := f\<rparr>) e p = pdf2image_try w e p"
  "open_convert_L (w\<lparr>imagehash_phash := f\<rparr>) p = open_convert_L w p"
  by (simp_all add: fitz_try_def pdf2image_try_def open_convert_L_def
      split: sum.splits list.splits)

lemma load_as_pil_ignores_phash:
  "load_as_pil (w\<lparr>imagehash_phash := f\<rparr>) e p = load_as_pil w e p"
  unfolding load_as_pil_def pdf_to_pil_def renderers_ignore_phash Let_def
  by simp

lemma library_world_same:
  "validate_file (library_world u) p = validate_file (example_world u) p"
  "load_as_pil (library_world u) e p = load_as_pil (example_world u) e p"
  "uuid4 (library_world u) = u"
  by (simp_all add: library_world_def validate_file_def load_as_pil_ignores_phash example_flags)

lemma library_phash:
  "generate_phash (library_world u) 11 = 0"
  "generate_phash (library_world u) 12 = 0x8000000000000007"
  "generate_phash (library_world u) 13 = 0x8000000000000003"
  by (simp_all add: generate_phash_def library_world_def example_world_def)

lemma library_values:
  "phash_output 0"
  "phash_output 0x8000000000000007"
  "phash_output 0x8000000000000003"
  by code_simp+

lemma library_world_range: "\<forall>img. phash_output (imagehash_phash (library_world u) img)"
  by (simp add: library_world_def library_values)

lemma library_distances:
  "spec_hamming_distance 0x8000000000000003 0 = 3"
  "spec_hamming_distance 0x8000000000000003 0x8000000000000007 = 1"
  by code_simp+

lemma library_archive:
  "phash_archive (snd (analyze_all example_engine library_calls)) =
     [(''id-1'', ''a.png'', 0), (''id-2'', ''c.png'', 0x8000000000000007)]"
proof -
  have v: "fst (validate_file (library_world u) ''uploads/a.png'')"
    "fst (validate_file (library_world u) ''uploads/c.png'')" for u
    by (simp_all add: library_world_same example_validate)
  have l: "load_as_pil (library_world u) e ''uploads/a.png'' = Some 11"
    "load_as_pil (library_world u) e ''uploads/c.png'' = Some 12" for u e
    by (simp_all add: library_world_same example_load_png)
  show ?thesis
    unfolding library_calls_def analyze_all_snd_Cons
    by (simp add: analyze_engine_rendered [OF v(1) l(1)] analyze_engine_rendered [OF v(2) l(2)]
        library_world_same library_phash example_basename example_engine_sel)
qed

text \<open>
  Witness for C2: after \<^verbatim>\<open>a.png\<close> (fingerprint 0) and \<^verbatim>\<open>c.png\<close>, the fingerprint of
  \<^verbatim>\<open>scan.pdf\<close> lies 3 bits from the first entry and 1 bit from the second; the finding reports
  distance 1 and \<^verbatim>\<open>c.png\<close>.
\<close>

theorem C2_nearest_fingerprint_witness:
  "fst (validate_file (library_world ''id-3'') ''uploads/scan.pdf'') \<and>
   load_as_pil (library_world ''id-3'') (snd (analyze_all example_engine library_calls))
     ''uploads/scan.pdf'' = Some 13 \<and>
   phash_archive (snd (analyze_all example_engine library_calls)) =
     [(''id-1'', ''a.png'', 0), (''id-2'', ''c.png'', 0x8000000000000007)] \<and>
   generate_phash (library_world ''id-3'') 13 = 0x8000000000000003 \<and>
   (\<exists>f. phash (layers (fst (analyze_against_archive (library_world ''id-3'')
                              (snd (analyze_all example_engine library_calls))
                              ''uploads/scan.pdf''))) = Some f \<and>
        hamming_distance f = Some 1 \<and> matched_file f = Some ''c.png'')"
proof -
  let ?w = "library_world ''id-3''"
  let ?e = "snd (analyze_all example_engine library_calls)"
  have v: "fst (validate_file ?w ''uploads/scan.pdf'')"
    by (simp add: library_world_same example_validate)
  have l: "load_as_pil ?w ?e ''uploads/scan.pdf'' = Some 13"
    by (simp add: library_world_same example_load_pdf)
  have ne: "phash_archive ?e \<noteq> []"
    by (simp add: library_archive)
  have e: "?e = snd (analyze_all (ImageForensicsEngine (example_world ''id-0'') None None)
                       library_calls)"
    by (simp add: example_engine_def)
  have libs: "\<forall>(w', fp') \<in> set library_calls. \<forall>img. phash_output (imagehash_phash w' img)"
    by (simp add: library_calls_def library_world_range)
  from C2_nearest_fingerprint [OF v l ne e libs library_world_range]
  obtain aid an ah f where
    m: "(aid, an, ah) \<in> set (phash_archive ?e)"
    and least: "\<forall>(a, n, x) \<in> set (phash_archive ?e).
              spec_hamming_distance (generate_phash ?w 13) ah
                \<le> spec_hamming_distance (generate_phash ?w 13) x"
    and f: "phash (layers (fst (analyze_against_archive ?w ?e ''uploads/scan.pdf''))) = Some f"
      "hamming_distance f = Some (spec_hamming_distance (generate_phash ?w 13) ah)"
      "matched_file f = Some an"
    by blast
  from m least have "ah = 0x8000000000000007 \<and> an = ''c.png''"
    by (auto simp: library_archive library_phash library_distances)
  with f have "\<exists>f. phash (layers (fst (analyze_against_archive ?w ?e ''uploads/scan.pdf'')))
                    = Some f \<and>
        hamming_distance f = Some 1 \<and> matched_file f = Some ''c.png''"
    by (simp add: library_phash library_distances)
  with v l show ?thesis
    by (simp add: library_archive library_phash)
qed

end
